theory Spec2Isabelle
  imports Main "HOL-Library.Word" "HOL-Library.Sublist"
begin

unbundle bit_operations_syntax

section \<open>Machine types and platform results\<close>

text \<open>
  The adapter of \<^verbatim>\<open>src/native/src/platform/edge.cpp\<close> works on \<^verbatim>\<open>uint32_t\<close> sizes and
  window styles, \<^verbatim>\<open>uint64_t\<close> correlation indices and \<^verbatim>\<open>HRESULT\<close> return codes. They
  are words of the same width, so that multiplication wraps as it does in C++.
\<close>

type_synonym u32 = "32 word"
type_synonym u64 = "64 word"
type_synonym HRESULT = "32 word"
type_synonym HWND = nat

definition S_OK :: HRESULT where
  "S_OK = 0"

text \<open>
  Modelled from the spec: the \<^verbatim>\<open>FAILED\<close> macro of the platform headers is not part of the
  repository; an \<^verbatim>\<open>HRESULT\<close> is a failure exactly when it is negative as a signed
  32-bit value.
\<close>

definition FAILED :: "HRESULT \<Rightarrow> bool" where
  "FAILED hr = (sint hr < 0)"

text \<open>
  An exception leaves the function with the state reached so far; the model returns it
  as a value. \<^verbatim>\<open>throwIfFailed\<close> raises \<^verbatim>\<open>std::runtime_error\<close> whose text holds the code;
  the two literal messages of the constructor are \<open>runtime_error\<close>; a null pointer that
  the code dereferences without a test is \<open>null_dereference\<close>.
\<close>

datatype exn =
    runtime_error_hr HRESULT
  | runtime_error string
  | null_dereference string
  | json_parse_error
  | json_type_error

datatype 'a outcome = Returned 'a | Thrown exn

definition and_then :: "'a outcome \<Rightarrow> ('a \<Rightarrow> 'b outcome) \<Rightarrow> 'b outcome" where
  "and_then r f = (case r of Returned v \<Rightarrow> f v | Thrown e \<Rightarrow> Thrown e)"

definition throwIfFailed :: "HRESULT \<Rightarrow> unit outcome" where
  "throwIfFailed hr = (if FAILED hr then Thrown (runtime_error_hr hr) else Returned ())"

record RECT =
  left :: u32
  top :: u32
  right :: u32
  bottom :: u32

record MINMAXINFO =
  ptMinTrackSize :: "u32 \<times> u32"
  ptMaxTrackSize :: "u32 \<times> u32"

section \<open>The adapter's state\<close>

text \<open>
  Calls that leave the adapter (window system, engine, host callbacks) are recorded in
  order in \<open>calls\<close>. A host callback and a deferred action are opaque to the adapter; each
  is named by a number.
\<close>

type_synonym callback = nat
type_synonym action = nat
type_synonym resource = nat

record EnvironmentOptions =
  AdditionalBrowserArguments :: string

datatype call =
    ShowWindow
  | UpdateWindow
  | SetFocus
  | put_IsVisible bool
  | GetClientRect
  | put_Bounds RECT
  | PostQuitMessage
  | DefWindowProc
  | InvokeCallback callback u64 string
  | CoTaskMemFree
  | AddScriptToExecuteOnDocumentCreated
  | Navigate string
  | TranslateMessage u32
  | DispatchMessage u32
  | RunAction action
  | DeleteResource resource
  | RunIdle action
  | ControllerClose
  | CoInitializeEx
  | SetProcessDpiAwareness
  | RegisterClassEx
  | CreateWindowEx string u32
  | GetScaleFactorForMonitor
  | SetWindowPos
  | SetWindowLongPtr
  | DwmSetWindowAttribute
  | GetAvailableCoreWebView2BrowserVersionString
  | CreateCoreWebView2EnvironmentWithOptions string EnvironmentOptions
  | CreateCoreWebView2Controller
  | get_CoreWebView2
  | add_NavigationCompleted
  | add_WebMessageReceived
  | get_Settings
  | put_AreDevToolsEnabled bool
  | put_AreDefaultContextMenusEnabled bool

text \<open>
  The class declaration (\<^verbatim>\<open>platform/edge.hpp\<close>) is not among the sources. The members are
  the ones the member functions use. The source is in the middle of a renaming: the
  constructor initialises \<^verbatim>\<open>is_initialized\<close> and the navigation handler tests
  \<^verbatim>\<open>isInitialized\<close>; \<^verbatim>\<open>set_min_size\<close> and \<^verbatim>\<open>set_max_size\<close> store \<^verbatim>\<open>min_window_width\<close>, ... and
  the window procedure reads \<^verbatim>\<open>minSize.width\<close>, ... . Each pair is one member here.
  \<open>style\<close> is the window's \<^verbatim>\<open>GWL_STYLE\<close> long, which the window system keeps;
  \<open>environment\<close> and \<open>controller\<close> say whether the pointer of that name is set. The
  pointer \<^verbatim>\<open>webview\<close> is not a member here: the constructor sets it in the step after the
  controller, or throws.
\<close>

record Edge =
  window :: HWND
  style :: u32
  scale :: u32
  isInitialized :: bool
  environment :: bool
  controller :: bool
  min_window_width :: u32
  min_window_height :: u32
  max_window_width :: u32
  max_window_height :: u32
  callbacks :: "string \<rightharpoonup> callback \<times> nat"
  main_queue :: "(action \<times> resource) list"
  idle :: "action option"
  calls :: "call list"

definition emit :: "call \<Rightarrow> Edge \<Rightarrow> Edge" where
  "emit c s = s\<lparr>calls := calls s @ [c]\<rparr>"

section \<open>Size constraints\<close>

definition WS_MAXIMIZEBOX :: u32 where
  "WS_MAXIMIZEBOX = 0x00010000"

definition GetWindowLong :: "Edge \<Rightarrow> u32" where
  "GetWindowLong s = style s"

definition SetWindowLong :: "u32 \<Rightarrow> Edge \<Rightarrow> Edge" where
  "SetWindowLong v s = s\<lparr>style := v\<rparr>"

definition set_max_size :: "u32 \<Rightarrow> u32 \<Rightarrow> Edge \<Rightarrow> Edge" where
  "set_max_size width height s =
     (let s1 =
        (if (width, height) = (0, 0) then
           (let st = GetWindowLong s in
            if st AND WS_MAXIMIZEBOX = 0 then SetWindowLong (st OR WS_MAXIMIZEBOX) s else s)
         else
           (let st = GetWindowLong s in
            if st AND WS_MAXIMIZEBOX \<noteq> 0 then SetWindowLong (st AND NOT WS_MAXIMIZEBOX) s else s))
      in s1\<lparr>max_window_width := width * scale s div 100,
             max_window_height := height * scale s div 100\<rparr>)"

definition set_min_size :: "u32 \<Rightarrow> u32 \<Rightarrow> Edge \<Rightarrow> Edge" where
  "set_min_size width height s =
     s\<lparr>min_window_width := width * scale s div 100,
       min_window_height := height * scale s div 100\<rparr>"

text \<open>The sizes given to \<^verbatim>\<open>SetWindowPos\<close> are not recorded.\<close>

definition set_size :: "u32 \<Rightarrow> u32 \<Rightarrow> Edge \<Rightarrow> Edge" where
  "set_size width height s = emit SetWindowPos s"

text \<open>
  The window procedure. Its first argument is the adapter stored in the window's user
  data, \<open>None\<close> while no adapter is associated with the window. \<open>WM_GETMINMAXINFO\<close> carries the
  structure its \<^verbatim>\<open>lParam\<close> points to; the structure is returned as the handler leaves it.
  \<^verbatim>\<open>GetClientRect\<close> answers \<open>rc\<close>. The result is \<open>Some 0\<close> where the procedure returns 0
  itself and \<open>None\<close> where it returns what \<^verbatim>\<open>DefWindowProc\<close> returns.
\<close>

datatype wmsg = WM_DESTROY | WM_SIZE | WM_GETMINMAXINFO MINMAXINFO | WM_other u32

fun lParam :: "wmsg \<Rightarrow> MINMAXINFO option" where
  "lParam (WM_GETMINMAXINFO mmi) = Some mmi"
| "lParam _ = None"

fun windowProcedure :: "Edge option \<Rightarrow> RECT \<Rightarrow> wmsg \<Rightarrow> u32 option \<times> Edge option \<times> MINMAXINFO option" where
  "windowProcedure None rc m = (None, None, lParam m)"
| "windowProcedure (Some s) rc WM_DESTROY =
     (None, Some (emit DefWindowProc (emit PostQuitMessage s)), None)"
| "windowProcedure (Some s) rc WM_SIZE =
     (if \<not> controller s then (Some 0, Some s, None)
      else (None, Some (emit DefWindowProc (emit (put_Bounds rc) (emit GetClientRect s))), None))"
| "windowProcedure (Some s) rc (WM_GETMINMAXINFO mmi) =
     (let mmi1 = mmi\<lparr>ptMinTrackSize := (min_window_width s, min_window_height s)\<rparr>;
          mmi2 = (if (max_window_width s, max_window_height s) \<noteq> (0, 0)
                  then mmi1\<lparr>ptMaxTrackSize := (max_window_width s, max_window_height s)\<rparr>
                  else mmi1)
      in (Some 0, Some s, Some mmi2))"
| "windowProcedure (Some s) rc (WM_other n) = (None, Some (emit DefWindowProc s), None)"

definition query_constraints :: "Edge \<Rightarrow> MINMAXINFO \<Rightarrow> MINMAXINFO" where
  "query_constraints s mmi =
     (case windowProcedure (Some s) \<lparr>left = 0, top = 0, right = 0, bottom = 0\<rparr> (WM_GETMINMAXINFO mmi) of
        (_, _, Some mmi') \<Rightarrow> mmi' | (_, _, None) \<Rightarrow> mmi)"

section \<open>Navigation completed\<close>

text \<open>
  What the engine and the window system answer during one call of the handler:
  the results of \<^verbatim>\<open>put_IsVisible\<close> and \<^verbatim>\<open>put_Bounds\<close> and the rectangle
  \<^verbatim>\<open>GetClientRect\<close> writes. The handler calls through \<^verbatim>\<open>controller\<close> without a test:
  with the pointer not set, the call after \<^verbatim>\<open>SetFocus\<close> dereferences null.
\<close>

record nav_env =
  hr_put_IsVisible :: HRESULT
  client_rect :: RECT
  hr_put_Bounds :: HRESULT

definition webviewNavigationComplete :: "nav_env \<Rightarrow> Edge \<Rightarrow> HRESULT outcome \<times> Edge" where
  "webviewNavigationComplete env s =
     (if \<not> isInitialized s then
        (let s1 = s\<lparr>isInitialized := True\<rparr>;
             s2 = emit SetFocus (emit UpdateWindow (emit ShowWindow s1))
         in if \<not> controller s2 then (Thrown (null_dereference ''controller''), s2)
            else
              (let s3 = emit (put_IsVisible True) s2
               in case throwIfFailed (hr_put_IsVisible env) of
                    Thrown e \<Rightarrow> (Thrown e, s3)
                  | Returned _ \<Rightarrow>
                      (let s4 = emit (put_Bounds (client_rect env)) (emit GetClientRect s3)
                       in case throwIfFailed (hr_put_Bounds env) of
                            Thrown e \<Rightarrow> (Thrown e, s4)
                          | Returned _ \<Rightarrow> (Returned S_OK, s4))))
      else (Returned S_OK, s))"

text \<open>
  Events delivered one after the other to a handler. An exception that leaves a handler
  ends the program (\<^verbatim>\<open>The program closed with an error\<close>): later events are not delivered.
\<close>

fun deliver :: "('e \<Rightarrow> Edge \<Rightarrow> HRESULT outcome \<times> Edge) \<Rightarrow> 'e list \<Rightarrow> Edge \<Rightarrow> HRESULT outcome \<times> Edge" where
  "deliver h [] s = (Returned S_OK, s)"
| "deliver h (e # es) s =
     (case h e s of
        (Thrown x, s') \<Rightarrow> (Thrown x, s')
      | (Returned _, s') \<Rightarrow> deliver h es s')"

section \<open>Message dispatch\<close>

text \<open>
  JSON values. An integer literal is \<open>JInt\<close>, of any size; a number with a fraction or an
  exponent is \<open>JFloat\<close> and keeps its text. The members of an object are read by name
  through \<open>map_of\<close>: one value for each name.
\<close>

datatype json =
    JNull
  | JBool bool
  | JInt int
  | JFloat string
  | JString string
  | JArray "json list"
  | JObject "(string \<times> json) list"

text \<open>
  The two JSON libraries the handler calls (simdjson's On-Demand reader, then
  nlohmann::json) are not part of the repository; the spec takes parsing and serialising
  as an opaque capability. They are a parameter. \<open>parse\<close> is the value a JSON text denotes,
  \<open>None\<close> for a text that is not JSON: \<^verbatim>\<open>json::parse\<close> of nlohmann::json checks the whole
  text and throws on every text that is not JSON. The On-Demand reader checks only what
  the accesses made to the document pass over: of a JSON text it reads the value the
  text denotes; of a text that is not JSON it reports an error or reads a value all the
  same, and \<open>unvalidated\<close> is what it reads of such a text (\<open>None\<close>: an error). \<open>dump\<close> is
  the serialisation of a value; \<open>number_to_u64\<close> is the \<^verbatim>\<open>uint64_t\<close> that
  \<^verbatim>\<open>get<uint64_t>()\<close> converts a fraction to.
\<close>

record json_lib =
  parse :: "string \<Rightarrow> json option"
  unvalidated :: "string \<Rightarrow> json option"
  dump :: "json \<Rightarrow> string"
  number_to_u64 :: "string \<Rightarrow> u64"

text \<open>The document \<^verbatim>\<open>parser.iterate\<close> gives the two guards of the handler.\<close>

definition sj_document :: "json_lib \<Rightarrow> string \<Rightarrow> json option" where
  "sj_document lib text = (case parse lib text of Some j \<Rightarrow> Some j | None \<Rightarrow> unvalidated lib text)"

text \<open>
  simdjson reports failure through an error code, here \<open>None\<close>: \<^verbatim>\<open>document[key]\<close> fails on
  a text it has found not to be JSON, on a document that is not an object and on a
  missing member;
  \<^verbatim>\<open>get_uint64()\<close> succeeds on an integer from 0 to \<open>2^64 - 1\<close> only, and
  \<^verbatim>\<open>get_string()\<close> on a string only.
\<close>

fun sj_field :: "json option \<Rightarrow> string \<Rightarrow> json option" where
  "sj_field (Some (JObject members)) key = map_of members key"
| "sj_field _ key = None"

fun sj_get_uint64 :: "json option \<Rightarrow> u64 option" where
  "sj_get_uint64 (Some (JInt n)) = (if 0 \<le> n \<and> n < 2 ^ 64 then Some (word_of_int n) else None)"
| "sj_get_uint64 _ = None"

fun sj_get_string :: "json option \<Rightarrow> string option" where
  "sj_get_string (Some (JString t)) = Some t"
| "sj_get_string _ = None"

text \<open>
  nlohmann::json reports failure by an exception: \<^verbatim>\<open>json::parse\<close> on a text that is not
  JSON (\<open>json_parse_error\<close>), \<^verbatim>\<open>operator[]\<close> with a name on a value that is neither an
  object nor null, and \<^verbatim>\<open>get<T>()\<close> on a value of another type (\<open>json_type_error\<close>).
  \<^verbatim>\<open>operator[]\<close> yields null for a member the object does not have, and
  \<^verbatim>\<open>get<uint64_t>()\<close> converts any number and a boolean.
\<close>

definition nl_parse :: "json_lib \<Rightarrow> string \<Rightarrow> json outcome" where
  "nl_parse lib text = (case parse lib text of None \<Rightarrow> Thrown json_parse_error | Some j \<Rightarrow> Returned j)"

fun nl_at :: "json \<Rightarrow> string \<Rightarrow> json outcome" where
  "nl_at (JObject members) key = (case map_of members key of None \<Rightarrow> Returned JNull | Some v \<Rightarrow> Returned v)"
| "nl_at JNull key = Returned JNull"
| "nl_at _ key = Thrown json_type_error"

fun nl_get_uint64 :: "json_lib \<Rightarrow> json \<Rightarrow> u64 outcome" where
  "nl_get_uint64 lib (JInt n) = Returned (word_of_int n)"
| "nl_get_uint64 lib (JFloat x) = Returned (number_to_u64 lib x)"
| "nl_get_uint64 lib (JBool b) = Returned (of_bool b)"
| "nl_get_uint64 lib _ = Thrown json_type_error"

fun nl_get_string :: "json \<Rightarrow> string outcome" where
  "nl_get_string (JString t) = Returned t"
| "nl_get_string _ = Thrown json_type_error"

text \<open>
  \<^verbatim>\<open>internal::toString\<close> and \<^verbatim>\<open>internal::toWstring\<close> change the encoding of a text
  (UTF-16 and UTF-8) and not the text; a text is a \<open>string\<close> on both sides.
\<close>

definition toString :: "string \<Rightarrow> string" where
  "toString source = source"

definition toWstring :: "string \<Rightarrow> string" where
  "toWstring source = source"

text \<open>
  The event's arguments: the result of \<^verbatim>\<open>TryGetWebMessageAsString\<close> and the text it
  writes to \<^verbatim>\<open>buffer\<close> when it succeeds.
\<close>

record WebMessageReceivedEventArgs =
  hr_TryGetWebMessageAsString :: HRESULT
  buffer :: string

text \<open>
  The part of the handler after the two guards: the text is parsed again with
  nlohmann::json, the three members are read and the callback is looked up.
\<close>

definition dispatch :: "json_lib \<Rightarrow> string \<Rightarrow> Edge \<Rightarrow> HRESULT outcome \<times> Edge" where
  "dispatch lib text s =
     (case nl_parse lib text of
        Thrown x \<Rightarrow> (Thrown x, s)
      | Returned message_data \<Rightarrow>
          (case and_then (nl_at message_data ''index'') (nl_get_uint64 lib) of
             Thrown x \<Rightarrow> (Thrown x, s)
           | Returned index \<Rightarrow>
               (case and_then (nl_at message_data ''func'') nl_get_string of
                  Thrown x \<Rightarrow> (Thrown x, s)
                | Returned func_name \<Rightarrow>
                    (case nl_at message_data ''args'' of
                       Thrown x \<Rightarrow> (Thrown x, s)
                     | Returned a \<Rightarrow>
                         (let args_data = dump lib a;
                              s1 = (case callbacks s func_name of
                                      None \<Rightarrow> s
                                    | Some found \<Rightarrow> emit (InvokeCallback (fst found) index args_data) s)
                          in (Returned S_OK, emit CoTaskMemFree s1))))))"

definition webviewMessageReceived ::
    "json_lib \<Rightarrow> WebMessageReceivedEventArgs \<Rightarrow> Edge \<Rightarrow> HRESULT outcome \<times> Edge" where
  "webviewMessageReceived lib args s =
     (case throwIfFailed (hr_TryGetWebMessageAsString args) of
        Thrown e \<Rightarrow> (Thrown e, s)
      | Returned _ \<Rightarrow>
          (let jsonData = toString (buffer args);
               document = sj_document lib jsonData
           in case sj_get_uint64 (sj_field document ''index'') of
                None \<Rightarrow> (Returned S_OK, s)
              | Some index \<Rightarrow>
                  (case sj_get_string (sj_field document ''func'') of
                     None \<Rightarrow> (Returned S_OK, s)
                   | Some functionName \<Rightarrow> dispatch lib (toString (buffer args)) s)))"



text \<open>
  A sample of the library's answers: four texts that are JSON, every other text is not;
  one of these, with a comma too many inside \<open>args\<close>, which the On-Demand reader does not
  pass over on its way to \<open>index\<close> and \<open>func\<close>; the serialisation of the array \<open>[1,2]\<close>
  and of null.
\<close>

definition sample_lib :: json_lib where
  \<open>sample_lib =
     \<lparr>parse = (\<lambda>text.
        if text = ''{"index":7,"func":"add","args":[1,2]}''
        then Some (JObject [(''index'', JInt 7), (''func'', JString ''add''), (''args'', JArray [JInt 1, JInt 2])])
        else if text = ''{"index":18446744073709551616,"func":"add","args":[1,2]}''
        then Some (JObject [(''index'', JInt 18446744073709551616), (''func'', JString ''add''),
                            (''args'', JArray [JInt 1, JInt 2])])
        else if text = ''{"index":7,"args":[1,2]}''
        then Some (JObject [(''index'', JInt 7), (''args'', JArray [JInt 1, JInt 2])])
        else if text = ''{"index":"7","func":"add"}''
        then Some (JObject [(''index'', JString ''7''), (''func'', JString ''add'')])
        else None),
      unvalidated = (\<lambda>text.
        if text = ''{"index":7,"func":"add","args":[1,2,]}''
        then Some (JObject [(''index'', JInt 7), (''func'', JString ''add'')])
        else None),
      dump = (\<lambda>j. if j = JArray [JInt 1, JInt 2] then ''[1,2]'' else ''null''),
      number_to_u64 = (\<lambda>x. 0)\<rparr>\<close>

text \<open>The callbacks a state's log records, in order.\<close>

fun invocations :: "call list \<Rightarrow> (callback \<times> u64 \<times> string) list" where
  "invocations [] = []"
| "invocations (InvokeCallback f i a # cs) = (f, i, a) # invocations cs"
| "invocations (_ # cs) = invocations cs"

section \<open>The public class\<close>

text \<open>
  \<^verbatim>\<open>App\<close> of \<^verbatim>\<open>include/webview.hpp\<close> holds the handle of the adapter. The body of
  \<^verbatim>\<open>App::bind\<close> is a comment (\<^verbatim>\<open>// webview_bind(app, std::string(name).c_str(), )\<close>): the
  function has no statement.
\<close>

record App =
  app :: Edge

definition bind :: "string \<Rightarrow> callback \<Rightarrow> App \<Rightarrow> App" where
  "bind name callback a = a"

section \<open>Running: navigation and the message loop\<close>

text \<open>
  \<^verbatim>\<open>std::filesystem\<close> is a parameter: the current directory, \<^verbatim>\<open>operator/\<close> on two paths
  and \<^verbatim>\<open>generic_string()\<close>.
\<close>

record filesystem =
  current_path :: string
  path_append :: "string \<Rightarrow> string \<Rightarrow> string"
  generic_string :: "string \<Rightarrow> string"

definition navigation_target :: "filesystem \<Rightarrow> string \<Rightarrow> string" where
  "navigation_target fs url_path =
     (if prefix ''http://'' url_path \<or> prefix ''https://'' url_path
      then toWstring url_path
      else toWstring (''file:///'' @ generic_string fs (path_append fs (current_path fs) url_path)))"

text \<open>
  A sample of the library's answers: the current directory is \<^verbatim>\<open>C:\app\<close>, a relative
  path is appended after a backslash, the generic form has \<^verbatim>\<open>/\<close> for every backslash.
\<close>

definition sample_fs :: filesystem where
  "sample_fs =
     \<lparr>current_path = ''C:'' @ [CHR 0x5C] @ ''app'',
      path_append = (\<lambda>p q. p @ [CHR 0x5C] @ q),
      generic_string = map (\<lambda>c. if c = CHR 0x5C then CHR ''/'' else c)\<rparr>"

record MSG =
  message :: u32
  hwnd :: HWND

definition WM_QUIT :: u32 where
  "WM_QUIT = 0x0012"

text \<open>
  One turn of the loop as the surroundings decide it: what \<^verbatim>\<open>PeekMessage\<close> finds (\<open>None\<close>
  when no native message is pending) and the work appended to the queue since the turn
  before, up to the moment this turn finds the queue empty.
\<close>

record turn =
  peeked :: "MSG option"
  enqueued :: "(action \<times> resource) list"

function drain :: "Edge \<Rightarrow> Edge" where
  "drain s =
     (case main_queue s of
        [] \<Rightarrow> s
      | element # rest \<Rightarrow>
          drain (emit (DeleteResource (snd element)) (emit (RunAction (fst element)) (s\<lparr>main_queue := rest\<rparr>))))"
  by pat_completeness auto
termination
  by (relation "measure (\<lambda>s. length (main_queue s))") (auto simp: emit_def)

declare drain.simps [simp del]

text \<open>The calls a list of work items gives rise to, item by item.\<close>

fun work_calls :: "(action \<times> resource) list \<Rightarrow> call list" where
  "work_calls [] = []"
| "work_calls (element # rest) = RunAction (fst element) # DeleteResource (snd element) # work_calls rest"

definition loop_body :: "turn \<Rightarrow> Edge \<times> bool \<Rightarrow> Edge \<times> bool" where
  "loop_body t sr =
     (let s = (fst sr)\<lparr>main_queue := main_queue (fst sr) @ enqueued t\<rparr>; running = snd sr
      in case peeked t of
           Some msg \<Rightarrow>
             (if message msg = WM_QUIT then (s, False)
              else if hwnd msg \<noteq> 0
                   then (emit (DispatchMessage (message msg)) (emit (TranslateMessage (message msg)) s), running)
                   else (s, running))
         | None \<Rightarrow>
             (let s1 = drain s
              in (case idle s1 of None \<Rightarrow> s1 | Some f \<Rightarrow> emit (RunIdle f) s1, running)))"

text \<open>
  \<^verbatim>\<open>while (running)\<close>: the loop takes one turn after the other and leaves when \<open>running\<close>
  is false. When the turns end before that, the loop has not yet left.
\<close>

fun message_loop :: "turn list \<Rightarrow> Edge \<times> bool \<Rightarrow> Edge \<times> bool" where
  "message_loop [] sr = sr"
| "message_loop (t # ts) sr = (if snd sr then message_loop ts (loop_body t sr) else sr)"

record run_env =
  hr_AddScriptToExecuteOnDocumentCreated :: HRESULT
  hr_Navigate :: HRESULT
  turns :: "turn list"
  hr_Close :: HRESULT

text \<open>
  \<open>None\<close>: \<^verbatim>\<open>run\<close> has not returned, the loop is still running. After the loop
  \<^verbatim>\<open>controller->Close()\<close> is called without a test of the pointer.
\<close>

definition run :: "run_env \<Rightarrow> filesystem \<Rightarrow> string \<Rightarrow> Edge \<Rightarrow> unit outcome option \<times> Edge" where
  "run env fs url_path s =
     (let s1 = emit AddScriptToExecuteOnDocumentCreated s
      in case throwIfFailed (hr_AddScriptToExecuteOnDocumentCreated env) of
           Thrown e \<Rightarrow> (Some (Thrown e), s1)
         | Returned _ \<Rightarrow>
             (let s2 = emit (Navigate (navigation_target fs url_path)) s1
              in case throwIfFailed (hr_Navigate env) of
                   Thrown e \<Rightarrow> (Some (Thrown e), s2)
                 | Returned _ \<Rightarrow>
                     (case message_loop (turns env) (s2, True) of
                        (s3, True) \<Rightarrow> (None, s3)
                      | (s3, False) \<Rightarrow>
                          (if \<not> controller s3 then (Some (Thrown (null_dereference ''controller'')), s3)
                           else (Some (throwIfFailed (hr_Close env)), emit ControllerClose s3)))))"

fun navigations :: "call list \<Rightarrow> string list" where
  "navigations [] = []"
| "navigations (Navigate u # cs) = u # navigations cs"
| "navigations (_ # cs) = navigations cs"

section \<open>Construction\<close>

definition WS_OVERLAPPED :: u32 where "WS_OVERLAPPED = 0x00000000"
definition WS_SYSMENU :: u32 where "WS_SYSMENU = 0x00080000"
definition WS_MINIMIZEBOX :: u32 where "WS_MINIMIZEBOX = 0x00020000"
definition WS_THICKFRAME :: u32 where "WS_THICKFRAME = 0x00040000"

text \<open>
  How a wait of the constructor ends (\<^verbatim>\<open>while (!semaphore.try_acquire() && GetMessage(...))\<close>):
  the completion callback has run and released the semaphore, or \<^verbatim>\<open>GetMessage\<close> has
  returned 0 before it, or neither ever happens.
\<close>

datatype wait = Signalled | Quit | Stalled

record ctor_env =
  hr_CoInitializeEx :: HRESULT
  hr_SetProcessDpiAwareness :: HRESULT
  class_registered :: bool
  created_window :: HWND
  hr_GetScaleFactorForMonitor :: HRESULT
  monitor_scale :: u32
  hr_DwmSetWindowAttribute :: HRESULT
  hr_GetAvailableCoreWebView2BrowserVersionString :: HRESULT
  version :: "string option"
  APPDATA :: "string option"
  hr_put_AdditionalBrowserArguments :: HRESULT
  hr_CreateCoreWebView2EnvironmentWithOptions :: HRESULT
  environment_wait :: wait
  hr_CreateCoreWebView2Controller :: HRESULT
  controller_wait :: wait
  hr_get_CoreWebView2 :: HRESULT
  hr_add_NavigationCompleted :: HRESULT
  hr_add_WebMessageReceived :: HRESULT
  hr_get_Settings :: HRESULT
  hr_put_AreDevToolsEnabled :: HRESULT
  hr_put_AreDefaultContextMenusEnabled :: HRESULT

text \<open>\<^verbatim>\<open>THROW_IF_FAILED(f(...))\<close>: the call is made, then its result is tested.\<close>

definition checked :: "call \<Rightarrow> HRESULT \<Rightarrow> Edge \<Rightarrow> unit outcome \<times> Edge" where
  "checked c hr s = (throwIfFailed hr, emit c s)"

definition then_do :: "unit outcome \<times> Edge \<Rightarrow> (Edge \<Rightarrow> 'a outcome \<times> Edge) \<Rightarrow> 'a outcome \<times> Edge" where
  "then_do r k = (case r of (Thrown e, s) \<Rightarrow> (Thrown e, s) | (Returned _, s) \<Rightarrow> k s)"

text \<open>
  The members before the constructor's body runs: \<^verbatim>\<open>is_initialized(false)\<close> from the
  initialiser list; the others are taken empty or zero.
\<close>

definition blank :: Edge where
  "blank = \<lparr>window = 0, style = 0, scale = 0, isInitialized = False, environment = False,
     controller = False, min_window_width = 0, min_window_height = 0, max_window_width = 0,
     max_window_height = 0, callbacks = Map.empty, main_queue = [], idle = None, calls = []\<rparr>"

definition create_window :: "ctor_env \<Rightarrow> string \<Rightarrow> bool \<Rightarrow> Edge \<Rightarrow> unit outcome \<times> Edge" where
  "create_window env title resizeable s =
     then_do (checked CoInitializeEx (hr_CoInitializeEx env) s) (\<lambda>s.
     then_do (checked SetProcessDpiAwareness (hr_SetProcessDpiAwareness env) s) (\<lambda>s.
       let s = emit RegisterClassEx s
       in if \<not> class_registered env then (Thrown (runtime_error ''Failed to register window class''), s)
          else
            (let style0 = WS_OVERLAPPED OR WS_SYSMENU OR WS_MINIMIZEBOX OR WS_MAXIMIZEBOX;
                 style1 = (if resizeable then style0 OR WS_THICKFRAME else style0);
                 s = emit (CreateWindowEx title style1) (s\<lparr>window := created_window env, style := style1\<rparr>)
             in if created_window env = 0 then (Thrown (runtime_error ''Failed to create window''), s)
                else
                  then_do (checked GetScaleFactorForMonitor (hr_GetScaleFactorForMonitor env)
                            (s\<lparr>scale := monitor_scale env\<rparr>)) (\<lambda>s.
                    checked DwmSetWindowAttribute (hr_DwmSetWindowAttribute env)
                      (emit SetWindowLongPtr (emit SetWindowPos s))))))"

definition create_environment :: "ctor_env \<Rightarrow> filesystem \<Rightarrow> string \<Rightarrow> Edge \<Rightarrow> unit outcome \<times> Edge" where
  "create_environment env fs app_name s =
     then_do (checked GetAvailableCoreWebView2BrowserVersionString
               (hr_GetAvailableCoreWebView2BrowserVersionString env) s) (\<lambda>s.
       case version env of
         None \<Rightarrow> (Thrown (runtime_error ''WebView2 Runtime is not installed''), s)
       | Some v \<Rightarrow>
           (let s = emit CoTaskMemFree s
            in case APPDATA env of
                 None \<Rightarrow> (Thrown (null_dereference ''APPDATA''), s)
               | Some app_data \<Rightarrow>
                   then_do (throwIfFailed (hr_put_AdditionalBrowserArguments env), s) (\<lambda>s.
                     let options = \<lparr>AdditionalBrowserArguments = ''--disable-web-security''\<rparr>
                     in checked (CreateCoreWebView2EnvironmentWithOptions (path_append fs app_data app_name) options)
                          (hr_CreateCoreWebView2EnvironmentWithOptions env) s)))"

definition configure :: "ctor_env \<Rightarrow> bool \<Rightarrow> Edge \<Rightarrow> unit outcome \<times> Edge" where
  "configure env debug_mode s =
     then_do (checked get_CoreWebView2 (hr_get_CoreWebView2 env) s) (\<lambda>s.
     then_do (checked add_NavigationCompleted (hr_add_NavigationCompleted env) s) (\<lambda>s.
     then_do (checked add_WebMessageReceived (hr_add_WebMessageReceived env) s) (\<lambda>s.
     then_do (checked get_Settings (hr_get_Settings env) s) (\<lambda>s.
     then_do (checked (put_AreDevToolsEnabled debug_mode) (hr_put_AreDevToolsEnabled env) s) (\<lambda>s.
       checked (put_AreDefaultContextMenusEnabled debug_mode)
         (hr_put_AreDefaultContextMenusEnabled env) s)))))"

text \<open>
  The constructor. Outcome \<open>None\<close>: it never returns (a wait that stalls). After a wait
  that \<^verbatim>\<open>GetMessage\<close> ended the pointer is still null and is dereferenced.
\<close>

definition Edge_constructor ::
    "ctor_env \<Rightarrow> filesystem \<Rightarrow> string \<Rightarrow> string \<Rightarrow> u32 \<Rightarrow> u32 \<Rightarrow> bool \<Rightarrow> bool
      \<Rightarrow> unit outcome option \<times> Edge" where
  "Edge_constructor env fs app_name title width height resizeable debug_mode =
     (case then_do (create_window env title resizeable blank) (create_environment env fs app_name) of
        (Thrown e, s) \<Rightarrow> (Some (Thrown e), s)
      | (Returned _, s) \<Rightarrow>
          (case environment_wait env of
             Stalled \<Rightarrow> (None, s)
           | Quit \<Rightarrow> (Some (Thrown (null_dereference ''environment'')), s)
           | Signalled \<Rightarrow>
               (case checked CreateCoreWebView2Controller (hr_CreateCoreWebView2Controller env)
                       (s\<lparr>environment := True\<rparr>) of
                  (Thrown e, s) \<Rightarrow> (Some (Thrown e), s)
                | (Returned _, s) \<Rightarrow>
                    (case controller_wait env of
                       Stalled \<Rightarrow> (None, s)
                     | Quit \<Rightarrow> (Some (Thrown (null_dereference ''controller'')), s)
                     | Signalled \<Rightarrow>
                         (case configure env debug_mode (s\<lparr>controller := True\<rparr>) of
                            (r, s) \<Rightarrow> (Some r, s))))))"

fun environment_options :: "call list \<Rightarrow> EnvironmentOptions list" where
  "environment_options [] = []"
| "environment_options (CreateCoreWebView2EnvironmentWithOptions folder options # cs) =
     options # environment_options cs"
| "environment_options (_ # cs) = environment_options cs"

text \<open>
  The steps before the request for the environment all succeed: the guards of the
  constructor up to \<^verbatim>\<open>CreateCoreWebView2EnvironmentWithOptions\<close>, in their order.
\<close>

definition reaches_environment :: "ctor_env \<Rightarrow> bool" where
  "reaches_environment env =
     (\<not> FAILED (hr_CoInitializeEx env) \<and> \<not> FAILED (hr_SetProcessDpiAwareness env)
      \<and> class_registered env \<and> created_window env \<noteq> 0
      \<and> \<not> FAILED (hr_GetScaleFactorForMonitor env) \<and> \<not> FAILED (hr_DwmSetWindowAttribute env)
      \<and> \<not> FAILED (hr_GetAvailableCoreWebView2BrowserVersionString env)
      \<and> version env \<noteq> None \<and> APPDATA env \<noteq> None
      \<and> \<not> FAILED (hr_put_AdditionalBrowserArguments env))"

text \<open>Surroundings in which every call of the constructor succeeds.\<close>

definition all_succeed :: ctor_env where
  "all_succeed =
     \<lparr>hr_CoInitializeEx = 0, hr_SetProcessDpiAwareness = 0, class_registered = True,
      created_window = 1, hr_GetScaleFactorForMonitor = 0, monitor_scale = 150,
      hr_DwmSetWindowAttribute = 0, hr_GetAvailableCoreWebView2BrowserVersionString = 0,
      version = Some ''120.0.2210.91'', APPDATA = Some ''C:/Users/u/AppData/Roaming'',
      hr_put_AdditionalBrowserArguments = 0, hr_CreateCoreWebView2EnvironmentWithOptions = 0,
      environment_wait = Signalled, hr_CreateCoreWebView2Controller = 0,
      controller_wait = Signalled, hr_get_CoreWebView2 = 0, hr_add_NavigationCompleted = 0,
      hr_add_WebMessageReceived = 0, hr_get_Settings = 0, hr_put_AreDevToolsEnabled = 0,
      hr_put_AreDefaultContextMenusEnabled = 0\<rparr>"

section \<open>The script injected into every page\<close>

text \<open>
  The values the script keeps in its queue and uses as keys: a number, or \<^verbatim>\<open>undefined\<close>
  (what \<^verbatim>\<open>dequeue\<close> reads at a position that holds nothing).
\<close>

datatype jsval = Undefined | Number nat

record Queue =
  elements :: "nat \<rightharpoonup> jsval"
  head :: nat
  tail :: nat

definition Queue_constructor :: Queue where
  "Queue_constructor = \<lparr>elements = Map.empty, head = 0, tail = 0\<rparr>"

definition read_element :: "Queue \<Rightarrow> nat \<Rightarrow> jsval" where
  "read_element q k = (case elements q k of None \<Rightarrow> Undefined | Some v \<Rightarrow> v)"

definition enqueue :: "jsval \<Rightarrow> Queue \<Rightarrow> Queue" where
  "enqueue element q = q\<lparr>elements := (elements q)(tail q \<mapsto> element), tail := tail q + 1\<rparr>"

definition dequeue :: "Queue \<Rightarrow> jsval \<times> Queue" where
  "dequeue q =
     (let item = read_element q (head q)
      in (item, q\<lparr>elements := (elements q)(head q := None), head := head q + 1\<rparr>))"

definition peek :: "Queue \<Rightarrow> jsval" where
  "peek q = read_element q (head q)"

definition length_queue :: "Queue \<Rightarrow> int" where
  "length_queue q = int (tail q) - int (head q)"

text \<open>
  \<^verbatim>\<open>isEmpty\<close> compares the method \<^verbatim>\<open>this.length\<close> itself, not its result, with 0: the
  comparison is false for every queue. Nothing in the script calls it.
\<close>

definition isEmpty :: "Queue \<Rightarrow> bool" where
  "isEmpty q = False"

record IndexAllocator =
  queue :: Queue

definition IndexAllocator_constructor :: "nat \<Rightarrow> IndexAllocator" where
  "IndexAllocator_constructor count =
     \<lparr>queue = fold (\<lambda>i q. enqueue (Number i) q) [0..<count] Queue_constructor\<rparr>"

definition allocate :: "IndexAllocator \<Rightarrow> jsval \<times> IndexAllocator" where
  "allocate a = (let r = dequeue (queue a) in (fst r, a\<lparr>queue := snd r\<rparr>))"

definition deallocate :: "jsval \<Rightarrow> IndexAllocator \<Rightarrow> IndexAllocator" where
  "deallocate element a = a\<lparr>queue := enqueue element (queue a)\<rparr>"

text \<open>
  A promise is named by its position in \<open>promises\<close>, the page's promises in the order of
  their creation; \<open>results\<close> maps an index to the promise whose \<^verbatim>\<open>resolve\<close> and \<^verbatim>\<open>reject\<close>
  it holds. \<open>posted\<close> are the messages given to \<^verbatim>\<open>window.chrome.webview.postMessage\<close>, each
  the value whose \<^verbatim>\<open>JSON.stringify\<close> text is sent; \<^verbatim>\<open>JSON.stringify\<close> leaves out a member
  whose value is \<^verbatim>\<open>undefined\<close>.
\<close>

datatype promise = Pending | Fulfilled | Rejected

record WebView =
  results :: "jsval \<rightharpoonup> nat"
  events :: "string \<rightharpoonup> nat"
  allocator :: IndexAllocator
  promises :: "promise list"
  posted :: "json list"

definition MAX_RESULTS :: nat where
  "MAX_RESULTS = 100000"

text \<open>The constructor, with the value of the static member \<^verbatim>\<open>MAX_RESULTS\<close> as argument.\<close>

definition WebView_constructor :: "nat \<Rightarrow> WebView" where
  "WebView_constructor max_results =
     \<lparr>results = Map.empty, events = Map.empty,
      allocator = IndexAllocator_constructor max_results, promises = [], posted = []\<rparr>"

definition webview :: WebView where
  "webview = WebView_constructor MAX_RESULTS"

definition free_result :: "jsval \<Rightarrow> WebView \<Rightarrow> WebView" where
  "free_result index w = w\<lparr>allocator := deallocate index (allocator w)\<rparr>"

definition event :: "string \<Rightarrow> nat \<Rightarrow> WebView \<Rightarrow> WebView" where
  "event ev func w = w\<lparr>events := (events w)(ev \<mapsto> func)\<rparr>"

definition invoke :: "string \<Rightarrow> json list \<Rightarrow> WebView \<Rightarrow> nat \<times> WebView" where
  "invoke name args w =
     (let r = allocate (allocator w);
          index = fst r;
          promise = length (promises w);
          w1 = w\<lparr>allocator := snd r, promises := promises w @ [Pending],
                 results := (results w)(index \<mapsto> promise)\<rparr>;
          envelope = JObject ((case index of Undefined \<Rightarrow> [] | Number n \<Rightarrow> [(''index'', JInt (int n))])
                       @ [(''func'', JString name), (''args'', JArray args)])
      in (promise, w1\<lparr>posted := posted w1 @ [envelope]\<rparr>))"

text \<open>
  What a queue holds, from \<open>head\<close> to \<open>tail\<close>; the free list is what the allocator's
  queue holds, the next index to hand out first.
\<close>

definition contents :: "Queue \<Rightarrow> jsval list" where
  "contents q = map (read_element q) [head q..<tail q]"

definition free_list :: "WebView \<Rightarrow> jsval list" where
  "free_list w = contents (queue (allocator w))"

text \<open>The queue has not been read past its end.\<close>

definition ordered :: "WebView \<Rightarrow> bool" where
  "ordered w = (head (queue (allocator w)) \<le> tail (queue (allocator w)))"

text \<open>
  What the page and the host do to the script object: the page calls \<^verbatim>\<open>invoke\<close>, the
  host has \<^verbatim>\<open>__free_result(index)\<close> executed. Beside the object, \<open>track\<close> keeps the calls
  in flight, each with the correlation index its message carries on the wire (the member
  \<open>index\<close> of the envelope \<^verbatim>\<open>invoke\<close> posts, \<^verbatim>\<open>undefined\<close> when the envelope has none) and
  the promise \<^verbatim>\<open>invoke\<close> returns; \<^verbatim>\<open>__free_result(index)\<close> ends the calls that carry this
  index.
\<close>

definition posted_index :: "json \<Rightarrow> jsval" where
  "posted_index envelope =
     (case envelope of
        JObject members \<Rightarrow>
          (case map_of members ''index'' of Some (JInt n) \<Rightarrow> Number (nat n) | _ \<Rightarrow> Undefined)
      | _ \<Rightarrow> Undefined)"

datatype script_call = Invoke string "json list" | FreeResult jsval

fun track :: "script_call \<Rightarrow> WebView \<times> (jsval \<times> nat) list \<Rightarrow> WebView \<times> (jsval \<times> nat) list" where
  "track (Invoke name args) (w, in_flight) =
     (let r = invoke name args w
      in (snd r, in_flight @ [(posted_index (last (posted (snd r))), fst r)]))"
| "track (FreeResult index) (w, in_flight) =
     (free_result index w, filter (\<lambda>c. fst c \<noteq> index) in_flight)"

definition tracks ::
    "script_call list \<Rightarrow> WebView \<times> (jsval \<times> nat) list \<Rightarrow> WebView \<times> (jsval \<times> nat) list" where
  "tracks cs st = fold track cs st"

text \<open>
  A sequence of calls keeps to the protocol when no \<^verbatim>\<open>invoke\<close> finds the pool exhausted
  and every \<^verbatim>\<open>__free_result\<close> gives back the index of a call that is in flight.
\<close>

fun keeps_protocol :: "script_call list \<Rightarrow> WebView \<times> (jsval \<times> nat) list \<Rightarrow> bool" where
  "keeps_protocol [] st = True"
| "keeps_protocol (Invoke name args # cs) st =
     (free_list (fst st) \<noteq> [] \<and> keeps_protocol cs (track (Invoke name args) st))"
| "keeps_protocol (FreeResult index # cs) st =
     (index \<in> set (map fst (snd st)) \<and> keeps_protocol cs (track (FreeResult index) st))"

text \<open>
  Every index of the domain is accounted for once: it is either in the free list or
  carried by one call in flight; and the script object holds, under the index of each
  call in flight, the pair of the promise that call was given.
\<close>

definition accounted :: "nat \<Rightarrow> WebView \<times> (jsval \<times> nat) list \<Rightarrow> bool" where
  "accounted n st =
     (ordered (fst st) \<and> distinct (free_list (fst st) @ map fst (snd st))
      \<and> set (free_list (fst st)) \<union> set (map fst (snd st)) = Number ` {0..<n}
      \<and> list_all (\<lambda>c. results (fst st) (fst c) = Some (snd c)) (snd st))"

section \<open>Properties: size constraints\<close>

lemma WS_MAXIMIZEBOX_exp: "WS_MAXIMIZEBOX = 2 ^ 16"
  by (simp add: WS_MAXIMIZEBOX_def)

lemma or_exp_already: "(st :: 'a::len word) AND 2 ^ n \<noteq> 0 \<Longrightarrow> st OR 2 ^ n = st"
  by (rule bit_word_eqI) (auto simp: bit_simps and_exp_eq_0_iff_not_bit)

lemma and_not_exp_already: "(st :: 'a::len word) AND 2 ^ n = 0 \<Longrightarrow> st AND NOT (2 ^ n) = st"
  by (rule bit_word_eqI) (auto simp: bit_simps and_exp_eq_0_iff_not_bit)

lemma or_bit_already: "(st :: u32) AND WS_MAXIMIZEBOX \<noteq> 0 \<Longrightarrow> st OR WS_MAXIMIZEBOX = st"
  unfolding WS_MAXIMIZEBOX_exp by (rule or_exp_already)

lemma and_not_bit_already: "(st :: u32) AND WS_MAXIMIZEBOX = 0 \<Longrightarrow> st AND NOT WS_MAXIMIZEBOX = st"
  unfolding WS_MAXIMIZEBOX_exp by (rule and_not_exp_already)

lemma maximize_box_set: "(st OR WS_MAXIMIZEBOX) AND WS_MAXIMIZEBOX = WS_MAXIMIZEBOX"
  by (rule bit_word_eqI) (auto simp: bit_simps)

lemma maximize_box_clear: "(st AND NOT WS_MAXIMIZEBOX) AND WS_MAXIMIZEBOX = 0"
  by (rule bit_word_eqI) (auto simp: bit_simps)

lemma set_max_size_zero:
  "set_max_size 0 0 s = s\<lparr>style := style s OR WS_MAXIMIZEBOX, max_window_width := 0, max_window_height := 0\<rparr>"
  by (auto simp: set_max_size_def GetWindowLong_def SetWindowLong_def Let_def or_bit_already)

lemma set_max_size_nonzero:
  "(w, h) \<noteq> (0, 0) \<Longrightarrow> set_max_size w h s =
     s\<lparr>style := style s AND NOT WS_MAXIMIZEBOX, max_window_width := w * scale s div 100,
       max_window_height := h * scale s div 100\<rparr>"
  by (auto simp: set_max_size_def GetWindowLong_def SetWindowLong_def Let_def and_not_bit_already)

lemma query_constraints_eq:
  "query_constraints s mmi =
     (if (max_window_width s, max_window_height s) \<noteq> (0, 0)
      then mmi\<lparr>ptMinTrackSize := (min_window_width s, min_window_height s),
               ptMaxTrackSize := (max_window_width s, max_window_height s)\<rparr>
      else mmi\<lparr>ptMinTrackSize := (min_window_width s, min_window_height s)\<rparr>)"
  by (simp add: query_constraints_def Let_def)

lemma scaled_nonzero:
  fixes w sc :: u32
  assumes "w \<noteq> 0" "100 \<le> sc" "unat w * unat sc < 2 ^ 32"
  shows "w * sc div 100 \<noteq> 0"
proof -
  have m: "unat (w * sc) = unat w * unat sc"
    using assms(3) by (simp add: unat_word_ariths)
  have "unat w \<ge> 1" using assms(1) by (simp add: unat_gt_0 Suc_leI)
  moreover have "unat sc \<ge> 100" using assms(2) by (simp add: word_le_nat_alt)
  ultimately have "unat w * unat sc \<ge> 100"
    by (metis mult_le_mono nat_mult_1)
  then have "unat (w * sc) div 100 \<ge> 1" using m
    by (simp add: Suc_leI div_greater_zero_iff)
  then have "unat (w * sc div 100) \<ge> 1"
    by (simp add: unat_div)
  then show ?thesis by auto
qed


text \<open>
  Claim C8, as amended. \<^verbatim>\<open>set_max_size(0, 0)\<close> sets the maximize box in the window style
  and the size-constraints query then leaves the max-track values of the structure as
  they were. \<^verbatim>\<open>set_max_size\<close> with a pair other than (0, 0) clears the maximize box and
  stores \<open>width * scale div 100\<close> and \<open>height * scale div 100\<close>, computed in 32-bit
  unsigned arithmetic; the query writes the two stored values unless both are 0, and
  they are not both 0 when the scale is at least 100 and neither product exceeds
  \<open>2^32 - 1\<close>. The query writes the minimum constraints in every case.
\<close>

theorem max_size_sentinel:
  fixes w h :: u32
  shows
  "style (set_max_size 0 0 s) = style s OR WS_MAXIMIZEBOX
   \<and> style (set_max_size 0 0 s) AND WS_MAXIMIZEBOX = WS_MAXIMIZEBOX
   \<and> query_constraints (set_max_size 0 0 s) mmi =
       mmi\<lparr>ptMinTrackSize := (min_window_width s, min_window_height s)\<rparr>
   \<and> ((w, h) \<noteq> (0, 0) \<longrightarrow>
        style (set_max_size w h s) = style s AND NOT WS_MAXIMIZEBOX
        \<and> style (set_max_size w h s) AND WS_MAXIMIZEBOX = 0
        \<and> max_window_width (set_max_size w h s) = w * scale s div 100
        \<and> max_window_height (set_max_size w h s) = h * scale s div 100
        \<and> query_constraints (set_max_size w h s) mmi =
            (if (w * scale s div 100, h * scale s div 100) = (0, 0)
             then mmi\<lparr>ptMinTrackSize := (min_window_width s, min_window_height s)\<rparr>
             else mmi\<lparr>ptMinTrackSize := (min_window_width s, min_window_height s),
                      ptMaxTrackSize := (w * scale s div 100, h * scale s div 100)\<rparr>)
        \<and> (100 \<le> scale s \<and> unat w * unat (scale s) < 2 ^ 32 \<and> unat h * unat (scale s) < 2 ^ 32 \<longrightarrow>
             ptMaxTrackSize (query_constraints (set_max_size w h s) mmi) =
               (w * scale s div 100, h * scale s div 100)))
   \<and> ptMinTrackSize (query_constraints (set_max_size w h s) mmi) =
       (min_window_width s, min_window_height s)"
proof (intro conjI impI)
  show "style (set_max_size 0 0 s) = style s OR WS_MAXIMIZEBOX"
    by (simp add: set_max_size_zero)
  show "style (set_max_size 0 0 s) AND WS_MAXIMIZEBOX = WS_MAXIMIZEBOX"
    by (simp add: set_max_size_zero maximize_box_set)
  show "query_constraints (set_max_size 0 0 s) mmi =
       mmi\<lparr>ptMinTrackSize := (min_window_width s, min_window_height s)\<rparr>"
    by (simp add: set_max_size_zero query_constraints_eq)
  show "ptMinTrackSize (query_constraints (set_max_size w h s) mmi) =
       (min_window_width s, min_window_height s)"
    by (cases "(w, h) = (0, 0)") (simp_all add: set_max_size_zero set_max_size_nonzero query_constraints_eq)
next
  assume nz: "(w, h) \<noteq> (0, 0)"
  show "style (set_max_size w h s) = style s AND NOT WS_MAXIMIZEBOX"
    and "style (set_max_size w h s) AND WS_MAXIMIZEBOX = 0"
    and "max_window_width (set_max_size w h s) = w * scale s div 100"
    and "max_window_height (set_max_size w h s) = h * scale s div 100"
    by (simp_all add: set_max_size_nonzero [OF nz] maximize_box_clear)
  show q: "query_constraints (set_max_size w h s) mmi =
            (if (w * scale s div 100, h * scale s div 100) = (0, 0)
             then mmi\<lparr>ptMinTrackSize := (min_window_width s, min_window_height s)\<rparr>
             else mmi\<lparr>ptMinTrackSize := (min_window_width s, min_window_height s),
                      ptMaxTrackSize := (w * scale s div 100, h * scale s div 100)\<rparr>)"
    by (simp add: set_max_size_nonzero [OF nz] query_constraints_eq)
  assume fit: "100 \<le> scale s \<and> unat w * unat (scale s) < 2 ^ 32 \<and> unat h * unat (scale s) < 2 ^ 32"
  have "w * scale s div 100 \<noteq> 0 \<or> h * scale s div 100 \<noteq> 0"
    using nz fit scaled_nonzero [of w "scale s"] scaled_nonzero [of h "scale s"] by auto
  then show "ptMaxTrackSize (query_constraints (set_max_size w h s) mmi) =
               (w * scale s div 100, h * scale s div 100)"
    unfolding q by auto
qed

theorem max_size_sentinel_witness:
  "style (set_max_size 0 0 (blank\<lparr>scale := 150\<rparr>)) = WS_MAXIMIZEBOX
   \<and> ptMaxTrackSize (query_constraints (set_max_size 0 0 (blank\<lparr>scale := 150\<rparr>))
        \<lparr>ptMinTrackSize = (7, 7), ptMaxTrackSize = (1936, 1096)\<rparr>) = (1936, 1096)
   \<and> style (set_max_size 800 600 (blank\<lparr>style := WS_MAXIMIZEBOX, scale := 150\<rparr>)) = 0
   \<and> query_constraints (set_max_size 800 600 (blank\<lparr>style := WS_MAXIMIZEBOX, scale := 150\<rparr>))
        \<lparr>ptMinTrackSize = (7, 7), ptMaxTrackSize = (1936, 1096)\<rparr> =
        \<lparr>ptMinTrackSize = (0, 0), ptMaxTrackSize = (1200, 900)\<rparr>"
  using max_size_sentinel [of "blank\<lparr>scale := 150\<rparr>"
          "\<lparr>ptMinTrackSize = (7, 7), ptMaxTrackSize = (1936, 1096)\<rparr>" 800 600]
        max_size_sentinel [of "blank\<lparr>style := WS_MAXIMIZEBOX, scale := 150\<rparr>"
          "\<lparr>ptMinTrackSize = (7, 7), ptMaxTrackSize = (1936, 1096)\<rparr>" 800 600]
  by (simp add: blank_def WS_MAXIMIZEBOX_def)

text \<open>
  The claim as the spec states it fails for the pair \<open>(2^30, 2^30)\<close> at scale 100: the
  products wrap to 0, the stored pair is (0, 0), the maximize box is cleared and the
  query leaves the max-track values it finds.
\<close>

theorem max_size_sentinel_counterexample:
  "style (set_max_size 1073741824 1073741824 (blank\<lparr>style := WS_MAXIMIZEBOX, scale := 100\<rparr>)) = 0
   \<and> max_window_width (set_max_size 1073741824 1073741824 (blank\<lparr>style := WS_MAXIMIZEBOX, scale := 100\<rparr>)) = 0
   \<and> max_window_height (set_max_size 1073741824 1073741824 (blank\<lparr>style := WS_MAXIMIZEBOX, scale := 100\<rparr>)) = 0
   \<and> ptMaxTrackSize (query_constraints
        (set_max_size 1073741824 1073741824 (blank\<lparr>style := WS_MAXIMIZEBOX, scale := 100\<rparr>))
        \<lparr>ptMinTrackSize = (7, 7), ptMaxTrackSize = (1936, 1096)\<rparr>) = (1936, 1096)"
  by (simp add: set_max_size_def GetWindowLong_def SetWindowLong_def query_constraints_def
      blank_def WS_MAXIMIZEBOX_def Let_def)

section \<open>Properties: message dispatch\<close>



















section \<open>Properties: registration\<close>

text \<open>
  Claim C9 fails on the code: \<^verbatim>\<open>App::bind\<close> leaves the adapter as it is, so that, after
  \<^verbatim>\<open>bind("add", ...)\<close> on a new adapter, a well-formed message that names \<^verbatim>\<open>add\<close> calls
  no callback.
\<close>

theorem bind_registers_nothing:
  \<open>bind name callback a = a
   \<and> invocations (calls (snd (webviewMessageReceived sample_lib
        \<lparr>hr_TryGetWebMessageAsString = 0, buffer = ''{"index":7,"func":"add","args":[1,2]}''\<rparr>
        (app (bind ''add'' 3 \<lparr>app = blank\<rparr>))))) = []\<close>
  by (simp add: bind_def sample_lib_def webviewMessageReceived_def sj_document_def dispatch_def
      nl_parse_def and_then_def throwIfFailed_def FAILED_def toString_def blank_def emit_def Let_def)

section \<open>Properties: construction\<close>

lemma environment_options_append:
  "environment_options (xs @ ys) = environment_options xs @ environment_options ys"
  by (induction xs rule: environment_options.induct) simp_all

lemma create_window_options:
  "environment_options (calls (snd (create_window env title resizeable s))) = environment_options (calls s)"
  by (simp add: create_window_def then_do_def checked_def throwIfFailed_def emit_def Let_def
      environment_options_append split: prod.splits outcome.splits)

lemma create_window_Returned:
  "(fst (create_window env title resizeable s) = Returned ()) =
     (\<not> FAILED (hr_CoInitializeEx env) \<and> \<not> FAILED (hr_SetProcessDpiAwareness env)
      \<and> class_registered env \<and> created_window env \<noteq> 0
      \<and> \<not> FAILED (hr_GetScaleFactorForMonitor env) \<and> \<not> FAILED (hr_DwmSetWindowAttribute env))"
  by (simp add: create_window_def then_do_def checked_def throwIfFailed_def Let_def)

lemma create_environment_options:
  "environment_options (calls (snd (create_environment env fs app_name s))) =
     environment_options (calls s) @
       (if \<not> FAILED (hr_GetAvailableCoreWebView2BrowserVersionString env)
           \<and> version env \<noteq> None \<and> APPDATA env \<noteq> None
           \<and> \<not> FAILED (hr_put_AdditionalBrowserArguments env)
        then [\<lparr>AdditionalBrowserArguments = ''--disable-web-security''\<rparr>] else [])"
  by (simp add: create_environment_def then_do_def checked_def throwIfFailed_def emit_def Let_def
      environment_options_append split: option.splits)

lemma create_environment_Returned:
  "fst (create_environment env fs app_name s) = Returned () \<Longrightarrow>
     \<not> FAILED (hr_GetAvailableCoreWebView2BrowserVersionString env)
     \<and> version env \<noteq> None \<and> APPDATA env \<noteq> None
     \<and> \<not> FAILED (hr_put_AdditionalBrowserArguments env)"
  by (simp add: create_environment_def then_do_def checked_def throwIfFailed_def Let_def
      split: option.splits if_splits)

lemma first_phase_options:
  "environment_options (calls (snd (then_do (create_window env title resizeable blank)
       (create_environment env fs app_name)))) =
     (if reaches_environment env then [\<lparr>AdditionalBrowserArguments = ''--disable-web-security''\<rparr>] else [])"
proof (cases "create_window env title resizeable blank")
  case (Pair r s)
  have none: "environment_options (calls s) = []"
    using create_window_options [of env title resizeable blank] Pair by (simp add: blank_def)
  show ?thesis
  proof (cases r)
    case (Returned u)
    then have "fst (create_window env title resizeable blank) = Returned ()" using Pair by simp
    then have w: "\<not> FAILED (hr_CoInitializeEx env) \<and> \<not> FAILED (hr_SetProcessDpiAwareness env)
      \<and> class_registered env \<and> created_window env \<noteq> 0
      \<and> \<not> FAILED (hr_GetScaleFactorForMonitor env) \<and> \<not> FAILED (hr_DwmSetWindowAttribute env)"
      by (rule create_window_Returned [THEN iffD1])
    have "then_do (create_window env title resizeable blank) (create_environment env fs app_name) =
        create_environment env fs app_name s"
      using Pair Returned by (simp add: then_do_def)
    then show ?thesis
      using none w by (simp add: create_environment_options reaches_environment_def)
  next
    case (Thrown e)
    then have "fst (create_window env title resizeable blank) \<noteq> Returned ()" using Pair by simp
    then have w: "\<not> (\<not> FAILED (hr_CoInitializeEx env) \<and> \<not> FAILED (hr_SetProcessDpiAwareness env)
      \<and> class_registered env \<and> created_window env \<noteq> 0
      \<and> \<not> FAILED (hr_GetScaleFactorForMonitor env) \<and> \<not> FAILED (hr_DwmSetWindowAttribute env))"
      using create_window_Returned [of env title resizeable blank] by blast
    have "then_do (create_window env title resizeable blank) (create_environment env fs app_name) =
        (Thrown e, s)"
      using Pair Thrown by (simp add: then_do_def)
    then show ?thesis
      using none w by (auto simp: reaches_environment_def)
  qed
qed

lemma first_phase_Returned:
  assumes ok: "fst (then_do (create_window env title resizeable blank)
                 (create_environment env fs app_name)) = Returned ()"
  shows "reaches_environment env"
proof (cases "create_window env title resizeable blank")
  case (Pair r s)
  show ?thesis
  proof (cases r)
    case (Returned u)
    then have "fst (create_window env title resizeable blank) = Returned ()" using Pair by simp
    then have w: "\<not> FAILED (hr_CoInitializeEx env) \<and> \<not> FAILED (hr_SetProcessDpiAwareness env)
      \<and> class_registered env \<and> created_window env \<noteq> 0
      \<and> \<not> FAILED (hr_GetScaleFactorForMonitor env) \<and> \<not> FAILED (hr_DwmSetWindowAttribute env)"
      by (rule create_window_Returned [THEN iffD1])
    have "fst (create_environment env fs app_name s) = Returned ()"
      using ok Pair Returned by (simp add: then_do_def)
    from create_environment_Returned [OF this] w show ?thesis
      by (simp add: reaches_environment_def)
  next
    case (Thrown e)
    then show ?thesis using ok Pair by (simp add: then_do_def)
  qed
qed

lemma configure_options:
  "environment_options (calls (snd (configure env debug_mode s))) = environment_options (calls s)"
  by (simp add: configure_def then_do_def checked_def throwIfFailed_def emit_def
      environment_options_append split: prod.splits outcome.splits)

lemma constructor_options:
  "environment_options (calls (snd (Edge_constructor env fs app_name title width height resizeable debug_mode))) =
     environment_options (calls (snd (then_do (create_window env title resizeable blank)
       (create_environment env fs app_name))))"
proof (cases "then_do (create_window env title resizeable blank) (create_environment env fs app_name)")
  case (Pair r s)
  show ?thesis
  proof (cases r)
    case (Thrown e)
    then show ?thesis using Pair by (simp add: Edge_constructor_def)
  next
    case (Returned u)
    show ?thesis
    proof (cases "environment_wait env")
      case Signalled
      show ?thesis
      proof (cases "FAILED (hr_CreateCoreWebView2Controller env)")
        case True
        then show ?thesis using Pair Returned Signalled
          by (simp add: Edge_constructor_def checked_def throwIfFailed_def emit_def environment_options_append)
      next
        case False
        show ?thesis
        proof (cases "controller_wait env")
          case Signalled': Signalled
          obtain r2 s2 where c: "configure env debug_mode
              (emit CreateCoreWebView2Controller (s\<lparr>environment := True\<rparr>)\<lparr>controller := True\<rparr>) = (r2, s2)"
            by (cases "configure env debug_mode
              (emit CreateCoreWebView2Controller (s\<lparr>environment := True\<rparr>)\<lparr>controller := True\<rparr>)")
          have "environment_options (calls s2) = environment_options (calls s)"
            using configure_options [of env debug_mode
              "emit CreateCoreWebView2Controller (s\<lparr>environment := True\<rparr>)\<lparr>controller := True\<rparr>"] c
            by (simp add: emit_def environment_options_append)
          then show ?thesis using Pair Returned Signalled False Signalled' c
            by (simp add: Edge_constructor_def checked_def throwIfFailed_def)
        qed (use Pair Returned Signalled False in
              \<open>simp_all add: Edge_constructor_def checked_def throwIfFailed_def emit_def environment_options_append\<close>)
      qed
    qed (use Pair Returned in \<open>simp_all add: Edge_constructor_def\<close>)
  qed
qed

lemma constructor_Returned:
  "fst (Edge_constructor env fs app_name title width height resizeable debug_mode) = Some (Returned ())
     \<Longrightarrow> fst (then_do (create_window env title resizeable blank) (create_environment env fs app_name)) = Returned ()"
  by (cases "then_do (create_window env title resizeable blank) (create_environment env fs app_name)")
     (auto simp: Edge_constructor_def split: outcome.splits)

text \<open>
  No step of the constructor touches \<open>isInitialized\<close>: the adapter it leaves, whether it
  returns, throws or stalls, is not initialised.
\<close>

lemma create_window_flag:
  "isInitialized (snd (create_window env title resizeable s)) = isInitialized s"
  by (simp add: create_window_def then_do_def checked_def throwIfFailed_def emit_def Let_def
      split: prod.splits outcome.splits)

lemma create_environment_flag:
  "isInitialized (snd (create_environment env fs app_name s)) = isInitialized s"
  by (simp add: create_environment_def then_do_def checked_def throwIfFailed_def emit_def Let_def
      split: option.splits)

lemma configure_flag:
  "isInitialized (snd (configure env debug_mode s)) = isInitialized s"
  by (simp add: configure_def then_do_def checked_def throwIfFailed_def emit_def
      split: prod.splits outcome.splits)

lemma then_do_flag:
  assumes "\<And>s. isInitialized (snd (k s)) = isInitialized s"
  shows "isInitialized (snd (then_do r k)) = isInitialized (snd r)"
  using assms by (cases r) (simp add: then_do_def split: outcome.splits)

lemma constructor_not_initialized:
  "\<not> isInitialized (snd (Edge_constructor env fs app_name title width height resizeable debug_mode))"
proof -
  let ?p = "then_do (create_window env title resizeable blank) (create_environment env fs app_name)"
  have p: "\<not> isInitialized (snd ?p)"
    by (simp add: then_do_flag create_environment_flag create_window_flag) (simp add: blank_def)
  obtain r s where ps: "?p = (r, s)" by (cases ?p)
  have s: "\<not> isInitialized s" using p ps by simp
  obtain r2 s2 where cf: "configure env debug_mode
      (emit CreateCoreWebView2Controller (s\<lparr>environment := True\<rparr>)\<lparr>controller := True\<rparr>) = (r2, s2)"
    by (cases "configure env debug_mode
      (emit CreateCoreWebView2Controller (s\<lparr>environment := True\<rparr>)\<lparr>controller := True\<rparr>)")
  have c: "\<not> isInitialized s2"
    using s cf configure_flag [of env debug_mode
      "emit CreateCoreWebView2Controller (s\<lparr>environment := True\<rparr>)\<lparr>controller := True\<rparr>"]
    by (simp add: emit_def)
  show ?thesis
    using ps s c cf
    by (simp add: Edge_constructor_def checked_def throwIfFailed_def emit_def
        split: outcome.splits wait.splits)
qed

text \<open>
  Claim C10. Whatever \<^verbatim>\<open>debug_mode\<close> is, the constructor asks for the engine environment
  at most once, and when it does (every step before the request has succeeded) the
  options of the request carry the additional browser argument
  \<^verbatim>\<open>--disable-web-security\<close>; a construction that returns has made the request.
\<close>

theorem web_security_disabled:
  "environment_options (calls (snd (Edge_constructor env fs app_name title width height resizeable debug_mode))) =
     (if reaches_environment env then [\<lparr>AdditionalBrowserArguments = ''--disable-web-security''\<rparr>] else [])
   \<and> (fst (Edge_constructor env fs app_name title width height resizeable debug_mode) = Some (Returned ())
        \<longrightarrow> reaches_environment env)"
proof
  show "environment_options (calls (snd (Edge_constructor env fs app_name title width height resizeable debug_mode))) =
     (if reaches_environment env then [\<lparr>AdditionalBrowserArguments = ''--disable-web-security''\<rparr>] else [])"
    unfolding constructor_options first_phase_options ..
  show "fst (Edge_constructor env fs app_name title width height resizeable debug_mode) = Some (Returned ())
        \<longrightarrow> reaches_environment env"
    using constructor_Returned first_phase_Returned by blast
qed

theorem web_security_disabled_witness:
  "fst (Edge_constructor all_succeed sample_fs ''above'' ''Above'' 800 600 True False) = Some (Returned ())
   \<and> environment_options (calls (snd (Edge_constructor all_succeed sample_fs ''above'' ''Above'' 800 600 True False))) =
       [\<lparr>AdditionalBrowserArguments = ''--disable-web-security''\<rparr>]
   \<and> environment_options (calls (snd (Edge_constructor all_succeed sample_fs ''above'' ''Above'' 800 600 True True))) =
       [\<lparr>AdditionalBrowserArguments = ''--disable-web-security''\<rparr>]"
proof -
  have ok: "fst (Edge_constructor all_succeed sample_fs ''above'' ''Above'' 800 600 True False) = Some (Returned ())"
    by (simp add: Edge_constructor_def create_window_def create_environment_def configure_def
        then_do_def checked_def throwIfFailed_def FAILED_def all_succeed_def Let_def)
  show ?thesis
    using ok
      web_security_disabled [of all_succeed sample_fs "''above''" "''Above''" 800 600 True False]
      web_security_disabled [of all_succeed sample_fs "''above''" "''Above''" 800 600 True True]
    by simp
qed

section \<open>Properties: navigation completed\<close>

lemma navigation_initialized:
  "isInitialized s \<Longrightarrow> webviewNavigationComplete e s = (Returned S_OK, s)"
  by (simp add: webviewNavigationComplete_def)

lemma navigation_sets_flag:
  "isInitialized (snd (webviewNavigationComplete e s))"
  by (simp add: webviewNavigationComplete_def Let_def emit_def split: outcome.splits)

lemma deliver_initialized:
  "isInitialized s \<Longrightarrow> deliver webviewNavigationComplete es s = (Returned S_OK, s)"
  by (induction es) (simp_all add: navigation_initialized)

lemma navigation_first:
  "\<not> isInitialized s \<Longrightarrow> controller s \<Longrightarrow>
     \<not> FAILED (hr_put_IsVisible e) \<Longrightarrow> \<not> FAILED (hr_put_Bounds e) \<Longrightarrow>
     webviewNavigationComplete e s =
       (Returned S_OK,
        s\<lparr>isInitialized := True,
          calls := calls s @ [ShowWindow, UpdateWindow, SetFocus, put_IsVisible True,
                              GetClientRect, put_Bounds (client_rect e)]\<rparr>)"
  by (simp add: webviewNavigationComplete_def Let_def emit_def throwIfFailed_def)

lemma navigation_no_controller:
  "\<not> isInitialized s \<Longrightarrow> \<not> controller s \<Longrightarrow>
     webviewNavigationComplete e s =
       (Thrown (null_dereference ''controller''),
        s\<lparr>isInitialized := True, calls := calls s @ [ShowWindow, UpdateWindow, SetFocus]\<rparr>)"
  by (simp add: webviewNavigationComplete_def Let_def emit_def)

text \<open>The adapter a construction that returns leaves has its controller.\<close>

lemma configure_controller:
  "controller (snd (configure env debug_mode s)) = controller s"
  by (simp add: configure_def then_do_def checked_def throwIfFailed_def emit_def
      split: prod.splits outcome.splits)

lemma constructor_controller:
  assumes "fst (Edge_constructor env fs app_name title width height resizeable debug_mode) = Some (Returned ())"
  shows "controller (snd (Edge_constructor env fs app_name title width height resizeable debug_mode))"
proof -
  let ?p = "then_do (create_window env title resizeable blank) (create_environment env fs app_name)"
  obtain r s where ps: "?p = (r, s)" by (cases ?p)
  obtain r2 s2 where cf: "configure env debug_mode
      (emit CreateCoreWebView2Controller (s\<lparr>environment := True\<rparr>)\<lparr>controller := True\<rparr>) = (r2, s2)"
    by (cases "configure env debug_mode
      (emit CreateCoreWebView2Controller (s\<lparr>environment := True\<rparr>)\<lparr>controller := True\<rparr>)")
  have c: "controller s2"
    using cf configure_controller [of env debug_mode
      "emit CreateCoreWebView2Controller (s\<lparr>environment := True\<rparr>)\<lparr>controller := True\<rparr>"]
    by simp
  show ?thesis
    using assms ps c cf
    by (simp add: Edge_constructor_def checked_def throwIfFailed_def emit_def
        split: outcome.splits wait.splits if_splits)
qed

text \<open>
  Claim C5. An event that finds the adapter initialised returns \<^verbatim>\<open>S_OK\<close> and does
  nothing. Of the events delivered to an adapter that is not yet initialised, the ones
  after the first change nothing; and when the adapter has its controller and the two
  engine calls of the first event succeed, the whole sequence shows the window, updates
  it, focuses it, marks the controller visible and sizes it to the client rectangle
  read at that event, once. The adapter a construction that returns leaves is not
  initialised and has its controller (\<open>constructor_not_initialized\<close>,
  \<open>constructor_controller\<close>).
\<close>

theorem navigation_shows_once:
  "(isInitialized s \<longrightarrow> webviewNavigationComplete e s = (Returned S_OK, s))
   \<and> (\<not> isInitialized s \<longrightarrow>
        snd (deliver webviewNavigationComplete (e # es) s) = snd (webviewNavigationComplete e s)
        \<and> (controller s \<and> \<not> FAILED (hr_put_IsVisible e) \<and> \<not> FAILED (hr_put_Bounds e) \<longrightarrow>
             deliver webviewNavigationComplete (e # es) s =
               (Returned S_OK,
                s\<lparr>isInitialized := True,
                  calls := calls s @ [ShowWindow, UpdateWindow, SetFocus, put_IsVisible True,
                                      GetClientRect, put_Bounds (client_rect e)]\<rparr>)))"
proof (intro conjI impI)
  assume "isInitialized s"
  then show "webviewNavigationComplete e s = (Returned S_OK, s)"
    by (rule navigation_initialized)
next
  assume fresh: "\<not> isInitialized s"
  obtain r s' where first: "webviewNavigationComplete e s = (r, s')"
    by (cases "webviewNavigationComplete e s")
  have init: "isInitialized s'"
    using navigation_sets_flag [of e s] first by simp
  show "snd (deliver webviewNavigationComplete (e # es) s) = snd (webviewNavigationComplete e s)"
    using first init by (cases r) (simp_all add: deliver_initialized)
  assume ok: "controller s \<and> \<not> FAILED (hr_put_IsVisible e) \<and> \<not> FAILED (hr_put_Bounds e)"
  have "webviewNavigationComplete e s =
       (Returned S_OK,
        s\<lparr>isInitialized := True,
          calls := calls s @ [ShowWindow, UpdateWindow, SetFocus, put_IsVisible True,
                              GetClientRect, put_Bounds (client_rect e)]\<rparr>)"
    using fresh ok by (simp add: navigation_first)
  then show "deliver webviewNavigationComplete (e # es) s =
               (Returned S_OK,
                s\<lparr>isInitialized := True,
                  calls := calls s @ [ShowWindow, UpdateWindow, SetFocus, put_IsVisible True,
                                      GetClientRect, put_Bounds (client_rect e)]\<rparr>)"
    by (simp add: deliver_initialized)
qed

theorem navigation_shows_once_witness:
  "calls (snd (deliver webviewNavigationComplete
      [\<lparr>hr_put_IsVisible = 0, client_rect = \<lparr>left = 0, top = 0, right = 800, bottom = 600\<rparr>, hr_put_Bounds = 0\<rparr>,
       \<lparr>hr_put_IsVisible = 0, client_rect = \<lparr>left = 0, top = 0, right = 1024, bottom = 768\<rparr>, hr_put_Bounds = 0\<rparr>,
       \<lparr>hr_put_IsVisible = 0, client_rect = \<lparr>left = 0, top = 0, right = 640, bottom = 480\<rparr>, hr_put_Bounds = 0\<rparr>]
      (blank\<lparr>controller := True\<rparr>))) =
     [ShowWindow, UpdateWindow, SetFocus, put_IsVisible True, GetClientRect,
      put_Bounds \<lparr>left = 0, top = 0, right = 800, bottom = 600\<rparr>]
   \<and> webviewNavigationComplete
        \<lparr>hr_put_IsVisible = 0, client_rect = \<lparr>left = 0, top = 0, right = 1024, bottom = 768\<rparr>, hr_put_Bounds = 0\<rparr>
        (blank\<lparr>isInitialized := True, controller := True\<rparr>) =
       (Returned S_OK, blank\<lparr>isInitialized := True, controller := True\<rparr>)"
  using navigation_shows_once [of "blank\<lparr>controller := True\<rparr>"
      "\<lparr>hr_put_IsVisible = 0, client_rect = \<lparr>left = 0, top = 0, right = 800, bottom = 600\<rparr>, hr_put_Bounds = 0\<rparr>"
      "[\<lparr>hr_put_IsVisible = 0, client_rect = \<lparr>left = 0, top = 0, right = 1024, bottom = 768\<rparr>, hr_put_Bounds = 0\<rparr>,
       \<lparr>hr_put_IsVisible = 0, client_rect = \<lparr>left = 0, top = 0, right = 640, bottom = 480\<rparr>, hr_put_Bounds = 0\<rparr>]"]
    navigation_shows_once [of "blank\<lparr>isInitialized := True, controller := True\<rparr>"
      "\<lparr>hr_put_IsVisible = 0, client_rect = \<lparr>left = 0, top = 0, right = 1024, bottom = 768\<rparr>, hr_put_Bounds = 0\<rparr>" "[]"]
  by (simp add: blank_def FAILED_def)

section \<open>Properties: the message loop\<close>

lemma drain_eq:
  "drain s = s\<lparr>main_queue := [], calls := calls s @ work_calls (main_queue s)\<rparr>"
proof (induction s rule: drain.induct)
  case (1 s)
  show ?case
  proof (cases "main_queue s")
    case Nil
    then show ?thesis by (subst drain.simps) simp
  next
    case (Cons element rest)
    then show ?thesis
      using "1" [OF Cons] by (subst drain.simps) (simp add: emit_def)
  qed
qed

lemma loop_body_idle:
  "peeked t = None \<Longrightarrow>
     loop_body t (s, running) =
       (s\<lparr>main_queue := [],
          calls := calls s @ work_calls (main_queue s @ enqueued t)
                   @ (case idle s of None \<Rightarrow> [] | Some f \<Rightarrow> [RunIdle f])\<rparr>, running)"
  by (simp add: loop_body_def Let_def drain_eq emit_def split: option.splits)

lemma loop_body_message:
  "peeked t = Some m \<Longrightarrow>
     loop_body t (s, running) =
       (s\<lparr>main_queue := main_queue s @ enqueued t,
          calls := calls s @ (if message m \<noteq> WM_QUIT \<and> hwnd m \<noteq> 0
                              then [TranslateMessage (message m), DispatchMessage (message m)] else [])\<rparr>,
        running \<and> message m \<noteq> WM_QUIT)"
  by (simp add: loop_body_def Let_def emit_def)

lemma message_loop_stopped: "message_loop ts (s, False) = (s, False)"
  by (cases ts) simp_all

lemma message_loop_turn:
  "message_loop (t # ts) (s, True) = message_loop ts (loop_body t (s, True))"
  by simp

lemma run_loop:
  assumes "\<not> FAILED (hr_AddScriptToExecuteOnDocumentCreated env)" and "\<not> FAILED (hr_Navigate env)"
    and "message_loop (turns env)
           (emit (Navigate (navigation_target fs url_path)) (emit AddScriptToExecuteOnDocumentCreated s),
            True) = (s3, False)"
    and "controller s3"
  shows "run env fs url_path s = (Some (throwIfFailed (hr_Close env)), emit ControllerClose s3)"
  using assms by (simp add: run_def Let_def throwIfFailed_def)

text \<open>
  Claim C6. While the loop is running, a turn that finds no native message runs the
  action of every item of the work queue and releases its resource, in the order of the
  queue, leaves the queue empty and then calls the idle callback once, if one is
  registered; the loop goes on with the next turn. A turn that finds a message other
  than quit translates and dispatches it when it has a window, runs no work item and no
  idle callback and leaves the queue as it is. A quit message ends the loop: the turns
  after it are not taken. So \<^verbatim>\<open>run\<close>, on a turn without a message followed by a quit
  message, registers the script, navigates, runs the work, calls the idle callback,
  closes the controller and returns.
\<close>

theorem idle_after_work:
  "(peeked t = None \<longrightarrow>
      message_loop (t # ts) (s, True) =
        message_loop ts
          (s\<lparr>main_queue := [],
             calls := calls s @ work_calls (main_queue s @ enqueued t)
                      @ (case idle s of None \<Rightarrow> [] | Some f \<Rightarrow> [RunIdle f])\<rparr>, True))
   \<and> (peeked t = Some m \<and> message m \<noteq> WM_QUIT \<longrightarrow>
        message_loop (t # ts) (s, True) =
          message_loop ts
            (s\<lparr>main_queue := main_queue s @ enqueued t,
               calls := calls s @ (if hwnd m \<noteq> 0
                                   then [TranslateMessage (message m), DispatchMessage (message m)] else [])\<rparr>,
             True))
   \<and> (peeked t = Some m \<and> message m = WM_QUIT \<longrightarrow>
        message_loop (t # ts) (s, True) = (s\<lparr>main_queue := main_queue s @ enqueued t\<rparr>, False))
   \<and> (\<not> FAILED (hr_AddScriptToExecuteOnDocumentCreated env) \<and> \<not> FAILED (hr_Navigate env)
        \<and> controller s \<and> turns env = t # q # ts
        \<and> peeked t = None \<and> peeked q = Some m \<and> message m = WM_QUIT \<longrightarrow>
        run env fs url_path s =
          (Some (throwIfFailed (hr_Close env)),
           s\<lparr>main_queue := enqueued q,
             calls := calls s @ [AddScriptToExecuteOnDocumentCreated, Navigate (navigation_target fs url_path)]
                      @ work_calls (main_queue s @ enqueued t)
                      @ (case idle s of None \<Rightarrow> [] | Some f \<Rightarrow> [RunIdle f])
                      @ [ControllerClose]\<rparr>))"
proof (intro conjI impI)
  assume "peeked t = None"
  then show "message_loop (t # ts) (s, True) =
        message_loop ts
          (s\<lparr>main_queue := [],
             calls := calls s @ work_calls (main_queue s @ enqueued t)
                      @ (case idle s of None \<Rightarrow> [] | Some f \<Rightarrow> [RunIdle f])\<rparr>, True)"
    unfolding message_loop_turn by (simp only: loop_body_idle)
next
  assume "peeked t = Some m \<and> message m \<noteq> WM_QUIT"
  then show "message_loop (t # ts) (s, True) =
          message_loop ts
            (s\<lparr>main_queue := main_queue s @ enqueued t,
               calls := calls s @ (if hwnd m \<noteq> 0
                                   then [TranslateMessage (message m), DispatchMessage (message m)] else [])\<rparr>,
             True)"
    unfolding message_loop_turn by (simp add: loop_body_message)
next
  assume "peeked t = Some m \<and> message m = WM_QUIT"
  then show "message_loop (t # ts) (s, True) = (s\<lparr>main_queue := main_queue s @ enqueued t\<rparr>, False)"
    unfolding message_loop_turn by (simp add: loop_body_message message_loop_stopped)
next
  assume a: "\<not> FAILED (hr_AddScriptToExecuteOnDocumentCreated env) \<and> \<not> FAILED (hr_Navigate env)
        \<and> controller s \<and> turns env = t # q # ts
        \<and> peeked t = None \<and> peeked q = Some m \<and> message m = WM_QUIT"
  let ?s2 = "emit (Navigate (navigation_target fs url_path)) (emit AddScriptToExecuteOnDocumentCreated s)"
  let ?s3 = "s\<lparr>main_queue := enqueued q,
             calls := calls s @ [AddScriptToExecuteOnDocumentCreated, Navigate (navigation_target fs url_path)]
                      @ work_calls (main_queue s @ enqueued t)
                      @ (case idle s of None \<Rightarrow> [] | Some f \<Rightarrow> [RunIdle f])\<rparr>"
  have "loop_body t (?s2, True) =
      (?s2\<lparr>main_queue := [],
          calls := calls ?s2 @ work_calls (main_queue ?s2 @ enqueued t)
                   @ (case idle ?s2 of None \<Rightarrow> [] | Some f \<Rightarrow> [RunIdle f])\<rparr>, True)"
    using a by (simp only: loop_body_idle)
  then have first: "loop_body t (?s2, True) = (?s3\<lparr>main_queue := []\<rparr>, True)"
    by (simp add: emit_def)
  have second: "loop_body q (?s3\<lparr>main_queue := []\<rparr>, True) = (?s3, False)"
    using a by (simp add: loop_body_message)
  have "message_loop (turns env) (?s2, True) = (?s3, False)"
    using a first second by (simp add: message_loop_stopped)
  moreover have "controller ?s3" using a by simp
  ultimately have "run env fs url_path s = (Some (throwIfFailed (hr_Close env)), emit ControllerClose ?s3)"
    using a by (simp add: run_loop)
  then show "run env fs url_path s =
          (Some (throwIfFailed (hr_Close env)),
           s\<lparr>main_queue := enqueued q,
             calls := calls s @ [AddScriptToExecuteOnDocumentCreated, Navigate (navigation_target fs url_path)]
                      @ work_calls (main_queue s @ enqueued t)
                      @ (case idle s of None \<Rightarrow> [] | Some f \<Rightarrow> [RunIdle f])
                      @ [ControllerClose]\<rparr>)"
    by (simp add: emit_def)
qed

theorem idle_after_work_witness:
  "message_loop [\<lparr>peeked = None, enqueued = [(3, 30)]\<rparr>]
      (blank\<lparr>main_queue := [(1, 10), (2, 20)], idle := Some 9\<rparr>, True) =
     (blank\<lparr>main_queue := [], idle := Some 9,
        calls := [RunAction 1, DeleteResource 10, RunAction 2, DeleteResource 20,
                  RunAction 3, DeleteResource 30, RunIdle 9]\<rparr>, True)
   \<and> message_loop [\<lparr>peeked = Some \<lparr>message = 0x000F, hwnd = 5\<rparr>, enqueued = []\<rparr>]
      (blank\<lparr>main_queue := [(1, 10)], idle := Some 9\<rparr>, True) =
     (blank\<lparr>main_queue := [(1, 10)], idle := Some 9,
        calls := [TranslateMessage 0x000F, DispatchMessage 0x000F]\<rparr>, True)
   \<and> message_loop [\<lparr>peeked = Some \<lparr>message = WM_QUIT, hwnd = 0\<rparr>, enqueued = []\<rparr>,
                    \<lparr>peeked = None, enqueued = []\<rparr>]
      (blank\<lparr>main_queue := [(1, 10)], idle := Some 9\<rparr>, True) =
     (blank\<lparr>main_queue := [(1, 10)], idle := Some 9\<rparr>, False)
   \<and> run \<lparr>hr_AddScriptToExecuteOnDocumentCreated = 0, hr_Navigate = 0,
           turns = [\<lparr>peeked = None, enqueued = [(2, 20)]\<rparr>,
                    \<lparr>peeked = Some \<lparr>message = WM_QUIT, hwnd = 0\<rparr>, enqueued = []\<rparr>],
           hr_Close = 0\<rparr>
        sample_fs ''https://example.com''
        (blank\<lparr>controller := True, main_queue := [(1, 10)], idle := Some 9\<rparr>) =
     (Some (Returned ()),
      blank\<lparr>controller := True, main_queue := [], idle := Some 9,
        calls := [AddScriptToExecuteOnDocumentCreated, Navigate ''https://example.com'',
                  RunAction 1, DeleteResource 10, RunAction 2, DeleteResource 20, RunIdle 9,
                  ControllerClose]\<rparr>)"
  using idle_after_work [where t = "\<lparr>peeked = None, enqueued = [(3, 30)]\<rparr>" and ts = "[]"
          and s = "blank\<lparr>main_queue := [(1, 10), (2, 20)], idle := Some 9\<rparr>"]
        idle_after_work [where t = "\<lparr>peeked = Some \<lparr>message = 0x000F, hwnd = 5\<rparr>, enqueued = []\<rparr>"
          and m = "\<lparr>message = 0x000F, hwnd = 5\<rparr>" and ts = "[]"
          and s = "blank\<lparr>main_queue := [(1, 10)], idle := Some 9\<rparr>"]
        idle_after_work [where t = "\<lparr>peeked = Some \<lparr>message = WM_QUIT, hwnd = 0\<rparr>, enqueued = []\<rparr>"
          and m = "\<lparr>message = WM_QUIT, hwnd = 0\<rparr>"
          and s = "blank\<lparr>main_queue := [(1, 10)], idle := Some 9\<rparr>"
          and ts = "[\<lparr>peeked = None, enqueued = []\<rparr>]"]
        idle_after_work [where t = "\<lparr>peeked = None, enqueued = [(2, 20)]\<rparr>"
          and q = "\<lparr>peeked = Some \<lparr>message = WM_QUIT, hwnd = 0\<rparr>, enqueued = []\<rparr>"
          and m = "\<lparr>message = WM_QUIT, hwnd = 0\<rparr>" and ts = "[]"
          and s = "blank\<lparr>controller := True, main_queue := [(1, 10)], idle := Some 9\<rparr>"
          and fs = sample_fs and url_path = "''https://example.com''"
          and env = "\<lparr>hr_AddScriptToExecuteOnDocumentCreated = 0, hr_Navigate = 0,
           turns = [\<lparr>peeked = None, enqueued = [(2, 20)]\<rparr>,
                    \<lparr>peeked = Some \<lparr>message = WM_QUIT, hwnd = 0\<rparr>, enqueued = []\<rparr>],
           hr_Close = 0\<rparr>"]
  by (simp add: blank_def WM_QUIT_def FAILED_def throwIfFailed_def navigation_target_def toWstring_def)

section \<open>Properties: the navigation target\<close>

lemma navigations_append: "navigations (xs @ ys) = navigations xs @ navigations ys"
  by (induction xs rule: navigations.induct) simp_all

lemma navigations_work_calls: "navigations (work_calls q) = []"
  by (induction q) simp_all

lemma navigations_loop_body:
  "navigations (calls (fst (loop_body t sr))) = navigations (calls (fst sr))"
  by (cases "peeked t")
     (simp_all add: loop_body_def Let_def drain_eq emit_def navigations_append
        navigations_work_calls split: option.splits)

lemma navigations_message_loop:
  "navigations (calls (fst (message_loop ts sr))) = navigations (calls (fst sr))"
  by (induction ts arbitrary: sr) (simp_all add: navigations_loop_body)

lemma navigations_run:
  "\<not> FAILED (hr_AddScriptToExecuteOnDocumentCreated env) \<Longrightarrow>
     navigations (calls (snd (run env fs url_path s))) =
       navigations (calls s) @ [navigation_target fs url_path]"
proof -
  assume ok: "\<not> FAILED (hr_AddScriptToExecuteOnDocumentCreated env)"
  let ?s2 = "emit (Navigate (navigation_target fs url_path)) (emit AddScriptToExecuteOnDocumentCreated s)"
  have s2: "navigations (calls ?s2) = navigations (calls s) @ [navigation_target fs url_path]"
    by (simp add: emit_def navigations_append)
  obtain s3 r where loop: "message_loop (turns env) (?s2, True) = (s3, r)"
    by (cases "message_loop (turns env) (?s2, True)")
  have s3: "navigations (calls s3) = navigations (calls ?s2)"
    using navigations_message_loop [of "turns env" "(?s2, True)"] loop by simp
  show ?thesis
    using ok s2 s3 loop
    by (cases r) (simp_all add: run_def Let_def throwIfFailed_def emit_def navigations_append
        split: outcome.splits)
qed

text \<open>
  Claim C7. A path that starts with \<^verbatim>\<open>http://\<close> or \<^verbatim>\<open>https://\<close> is the navigation target
  as it is. For any other path the target is \<^verbatim>\<open>file:///\<close> followed by the generic form
  of the path appended to the current directory. When the script has been registered,
  \<^verbatim>\<open>run\<close> navigates once, to that target.
\<close>

theorem url_classification:
  "(prefix ''http://'' url_path \<or> prefix ''https://'' url_path \<longrightarrow>
      navigation_target fs url_path = url_path)
   \<and> (\<not> (prefix ''http://'' url_path \<or> prefix ''https://'' url_path) \<longrightarrow>
        navigation_target fs url_path =
          ''file:///'' @ generic_string fs (path_append fs (current_path fs) url_path))
   \<and> (\<not> FAILED (hr_AddScriptToExecuteOnDocumentCreated env) \<longrightarrow>
        navigations (calls (snd (run env fs url_path s))) =
          navigations (calls s) @ [navigation_target fs url_path])"
proof (intro conjI impI)
  assume "prefix ''http://'' url_path \<or> prefix ''https://'' url_path"
  then show "navigation_target fs url_path = url_path"
    by (auto simp: navigation_target_def toWstring_def)
next
  assume "\<not> (prefix ''http://'' url_path \<or> prefix ''https://'' url_path)"
  then show "navigation_target fs url_path =
          ''file:///'' @ generic_string fs (path_append fs (current_path fs) url_path)"
    by (simp add: navigation_target_def toWstring_def)
next
  assume "\<not> FAILED (hr_AddScriptToExecuteOnDocumentCreated env)"
  then show "navigations (calls (snd (run env fs url_path s))) =
          navigations (calls s) @ [navigation_target fs url_path]"
    by (rule navigations_run)
qed

theorem url_classification_witness:
  "navigations (calls (snd (run
      \<lparr>hr_AddScriptToExecuteOnDocumentCreated = 0, hr_Navigate = 0, turns = [], hr_Close = 0\<rparr>
      sample_fs ''https://example.com'' blank))) = [''https://example.com'']
   \<and> navigations (calls (snd (run
      \<lparr>hr_AddScriptToExecuteOnDocumentCreated = 0, hr_Navigate = 0, turns = [], hr_Close = 0\<rparr>
      sample_fs ''index.html'' blank))) = [''file:///C:/app/index.html'']"
  using url_classification [where url_path = "''https://example.com''" and fs = sample_fs and s = blank
          and env = "\<lparr>hr_AddScriptToExecuteOnDocumentCreated = 0, hr_Navigate = 0, turns = [], hr_Close = 0\<rparr>"]
        url_classification [where url_path = "''index.html''" and fs = sample_fs and s = blank
          and env = "\<lparr>hr_AddScriptToExecuteOnDocumentCreated = 0, hr_Navigate = 0, turns = [], hr_Close = 0\<rparr>"]
  by (simp add: sample_fs_def blank_def FAILED_def)

section \<open>Properties: the correlation indices of the script\<close>

subsection \<open>The queue against its contents\<close>

lemma contents_enqueue:
  "head q \<le> tail q \<Longrightarrow> contents (enqueue element q) = contents q @ [element]"
  by (simp add: contents_def enqueue_def read_element_def)

lemma bounds_enqueue:
  "head (enqueue element q) = head q" "tail (enqueue element q) = Suc (tail q)"
  by (simp_all add: enqueue_def)

lemma contents_dequeue:
  assumes "head q < tail q"
  shows "fst (dequeue q) = hd (contents q)"
    and "contents (snd (dequeue q)) = tl (contents q)"
    and "head (snd (dequeue q)) \<le> tail (snd (dequeue q))"
proof -
  have up: "[head q..<tail q] = head q # [Suc (head q)..<tail q]"
    using assms by (simp add: upt_conv_Cons)
  show "fst (dequeue q) = hd (contents q)"
    by (simp add: dequeue_def contents_def up Let_def)
  show "contents (snd (dequeue q)) = tl (contents q)"
    by (simp add: dequeue_def contents_def up Let_def read_element_def)
  show "head (snd (dequeue q)) \<le> tail (snd (dequeue q))"
    using assms by (simp add: dequeue_def Let_def)
qed

lemma contents_nonempty: "contents q \<noteq> [] \<longleftrightarrow> head q < tail q"
  by (auto simp: contents_def)

lemma seeded:
  "contents (fold (\<lambda>i q. enqueue (Number i) q) [0..<count] Queue_constructor) = map Number [0..<count]
   \<and> head (fold (\<lambda>i q. enqueue (Number i) q) [0..<count] Queue_constructor) = 0
   \<and> tail (fold (\<lambda>i q. enqueue (Number i) q) [0..<count] Queue_constructor) = count"
proof (induction count)
  case 0
  show ?case by (simp add: Queue_constructor_def contents_def)
next
  case (Suc count)
  then show ?case by (simp add: contents_enqueue bounds_enqueue)
qed

lemma free_list_constructor: "free_list (WebView_constructor n) = map Number [0..<n]"
  by (simp add: free_list_def WebView_constructor_def IndexAllocator_constructor_def seeded)

lemma ordered_constructor: "ordered (WebView_constructor n)"
  by (simp add: ordered_def WebView_constructor_def IndexAllocator_constructor_def seeded)

lemma free_list_free_result:
  "ordered w \<Longrightarrow> free_list (free_result index w) = free_list w @ [index]"
  by (simp add: free_list_def free_result_def deallocate_def contents_enqueue ordered_def)

lemma ordered_free_result: "ordered w \<Longrightarrow> ordered (free_result index w)"
  by (simp add: ordered_def free_result_def deallocate_def bounds_enqueue)

lemma allocate_head:
  "free_list w \<noteq> [] \<Longrightarrow> fst (allocate (allocator w)) = hd (free_list w)"
  by (simp add: free_list_def allocate_def Let_def contents_dequeue(1) contents_nonempty)

lemma free_list_invoke:
  "free_list w \<noteq> [] \<Longrightarrow> free_list (snd (invoke name args w)) = tl (free_list w)"
  by (simp add: free_list_def invoke_def allocate_def Let_def contents_dequeue(2) contents_nonempty)

lemma ordered_invoke:
  "free_list w \<noteq> [] \<Longrightarrow> ordered (snd (invoke name args w))"
  by (simp add: free_list_def ordered_def invoke_def allocate_def Let_def contents_dequeue(3) contents_nonempty)

subsection \<open>What one call does\<close>

lemma invoke_fields:
  "results (snd (invoke name args w)) = (results w)(fst (allocate (allocator w)) \<mapsto> length (promises w))"
  "promises (snd (invoke name args w)) = promises w @ [Pending]"
  "fst (invoke name args w) = length (promises w)"
  by (simp_all add: invoke_def Let_def)

lemma invoke_posted_index:
  "posted_index (last (posted (snd (invoke name args w)))) = fst (allocate (allocator w))"
  by (cases "fst (allocate (allocator w))") (simp_all add: invoke_def Let_def posted_index_def)

lemma track_invoke:
  "track (Invoke name args) (w, in_flight) =
     (snd (invoke name args w), in_flight @ [(fst (allocate (allocator w)), length (promises w))])"
  by (simp add: Let_def invoke_posted_index invoke_fields(3))

lemma free_result_fields:
  "results (free_result index w) = results w"
  "promises (free_result index w) = promises w"
  "events (free_result index w) = events w"
  "posted (free_result index w) = posted w"
  by (simp_all add: free_result_def)

lemma free_list_free_result_lost:
  "\<not> ordered w \<Longrightarrow> free_list w = [] \<and> free_list (free_result index w) = []"
  by (simp add: free_list_def free_result_def deallocate_def contents_def enqueue_def ordered_def)

subsection \<open>The invariant of a run that keeps to the protocol\<close>

lemma accounted_initial: "accounted n (WebView_constructor n, [])"
  by (simp add: accounted_def ordered_constructor free_list_constructor distinct_map inj_on_def)

lemma accounted_invoke:
  assumes "accounted n (w, in_flight)" and "free_list w \<noteq> []"
  shows "accounted n (track (Invoke name args) (w, in_flight))"
proof -
  obtain x xs where fl: "free_list w = x # xs"
    using assms(2) by (cases "free_list w") auto
  have x: "fst (allocate (allocator w)) = x"
    using allocate_head [OF assms(2)] fl by simp
  have xs: "free_list (snd (invoke name args w)) = xs"
    using free_list_invoke [OF assms(2)] fl by simp
  have o: "ordered (snd (invoke name args w))"
    by (rule ordered_invoke [OF assms(2)])
  have fresh: "x \<notin> set (map fst in_flight)"
    using assms(1) fl by (auto simp: accounted_def)
  have held: "list_all (\<lambda>c. results w (fst c) = Some (snd c)) in_flight"
    using assms(1) by (simp add: accounted_def)
  have "list_all (\<lambda>c. ((results w)(x \<mapsto> length (promises w))) (fst c) = Some (snd c)) in_flight"
    using held fresh by (auto simp: list_all_iff)
  then have r: "list_all (\<lambda>c. results (snd (invoke name args w)) (fst c) = Some (snd c))
      (in_flight @ [(x, length (promises w))])"
    by (simp add: invoke_fields(1) x)
  show ?thesis
    unfolding track_invoke x
    using assms(1) fl xs o r by (auto simp: accounted_def)
qed

lemma accounted_free_result:
  assumes "accounted n (w, in_flight)" and "index \<in> set (map fst in_flight)"
  shows "accounted n (track (FreeResult index) (w, in_flight))"
proof -
  have o: "ordered w" and d: "distinct (free_list w @ map fst in_flight)"
    and u: "set (free_list w) \<union> set (map fst in_flight) = Number ` {0..<n}"
    and held: "list_all (\<lambda>c. results w (fst c) = Some (snd c)) in_flight"
    using assms(1) by (simp_all add: accounted_def)
  have fl: "free_list (free_result index w) = free_list w @ [index]"
    by (rule free_list_free_result [OF o])
  have m: "map fst (filter (\<lambda>c. fst c \<noteq> index) in_flight) = filter (\<lambda>i. i \<noteq> index) (map fst in_flight)"
    by (induction in_flight) simp_all
  have d': "distinct ((free_list w @ [index]) @ filter (\<lambda>i. i \<noteq> index) (map fst in_flight))"
    using d assms(2) by auto
  have u': "set (free_list w @ [index]) \<union> set (filter (\<lambda>i. i \<noteq> index) (map fst in_flight))
      = Number ` {0..<n}"
    using u assms(2) by auto
  have held': "list_all (\<lambda>c. results (free_result index w) (fst c) = Some (snd c))
      (filter (\<lambda>c. fst c \<noteq> index) in_flight)"
    using held by (auto simp: list_all_iff free_result_fields)
  show ?thesis
    using fl d' u' held' ordered_free_result [OF o] by (simp add: accounted_def m)
qed

lemma accounted_tracks:
  "accounted n st \<Longrightarrow> keeps_protocol cs st \<Longrightarrow> accounted n (tracks cs st)"
proof (induction cs arbitrary: st)
  case Nil
  then show ?case by (simp add: tracks_def)
next
  case (Cons c cs)
  obtain w in_flight where st: "st = (w, in_flight)" by (cases st)
  show ?case
  proof (cases c)
    case (Invoke name args)
    have "accounted n (track c st)"
      using Cons.prems accounted_invoke [of n w in_flight name args] st Invoke by simp
    moreover have "keeps_protocol cs (track c st)"
      using Cons.prems(2) Invoke by simp
    ultimately show ?thesis
      using Cons.IH [of "track c st"] by (simp add: tracks_def)
  next
    case (FreeResult index)
    have "accounted n (track c st)"
      using Cons.prems accounted_free_result [of n w in_flight index] st FreeResult by simp
    moreover have "keeps_protocol cs (track c st)"
      using Cons.prems(2) FreeResult by simp
    ultimately show ?thesis
      using Cons.IH [of "track c st"] by (simp add: tracks_def)
  qed
qed

lemma keeps_protocol_append:
  "keeps_protocol (cs @ ds) st \<longleftrightarrow> keeps_protocol cs st \<and> keeps_protocol ds (tracks cs st)"
proof (induction cs arbitrary: st)
  case Nil
  show ?case by (simp add: tracks_def)
next
  case (Cons c cs)
  show ?case
    using Cons.IH [of "track c st"] by (cases c) (auto simp: tracks_def)
qed

lemma tracks_append: "tracks (cs @ ds) st = tracks ds (tracks cs st)"
  by (simp add: tracks_def)

lemma first_index:
  "0 < n \<Longrightarrow> fst (allocate (allocator (WebView_constructor n))) = Number 0"
proof -
  assume "0 < n"
  then have "free_list (WebView_constructor n) = Number 0 # map Number [1..<n]"
    by (simp add: free_list_constructor upt_conv_Cons)
  then show ?thesis
    using allocate_head [of "WebView_constructor n"] by simp
qed

lemma first_invoke:
  assumes "0 < n"
  shows "results (snd (invoke name args (WebView_constructor n))) (Number 0) = Some 0"
    and "promises (snd (invoke name args (WebView_constructor n))) = [Pending]"
    and "ordered (snd (invoke name args (WebView_constructor n)))"
    and "free_list (snd (invoke name args (WebView_constructor n))) = map Number [1..<n]"
proof -
  have fl: "free_list (WebView_constructor n) = Number 0 # map Number [1..<n]"
    using assms by (simp add: free_list_constructor upt_conv_Cons)
  show "results (snd (invoke name args (WebView_constructor n))) (Number 0) = Some 0"
    using first_index [OF assms] by (simp add: invoke_fields) (simp add: WebView_constructor_def)
  show "promises (snd (invoke name args (WebView_constructor n))) = [Pending]"
    by (simp add: invoke_fields) (simp add: WebView_constructor_def)
  show "ordered (snd (invoke name args (WebView_constructor n)))"
    using fl by (simp add: ordered_invoke)
  show "free_list (snd (invoke name args (WebView_constructor n))) = map Number [1..<n]"
    using fl by (simp add: free_list_invoke)
qed

text \<open>
  Claim C3, as amended. \<^verbatim>\<open>__free_result(index)\<close> has one step: it stores the index at
  the tail of the allocator's queue. The mapping of pending pairs, the promises, the
  events and the posted messages are as before: the pair is neither looked up nor
  settled nor removed. Where the queue has not been read past its end the index is the
  new last entry of the free list, ready to be handed out again; where it has (an
  \<^verbatim>\<open>invoke\<close> on the exhausted pool) the free list was empty and stays empty, and the
  index is lost.
\<close>

theorem free_result_returns_index_only:
  "queue (allocator (free_result index w)) = enqueue index (queue (allocator w))
   \<and> results (free_result index w) = results w
   \<and> promises (free_result index w) = promises w
   \<and> events (free_result index w) = events w
   \<and> posted (free_result index w) = posted w
   \<and> free_list (free_result index w) = (if ordered w then free_list w @ [index] else [])
   \<and> (ordered w \<or> free_list w = [])"
proof (intro conjI)
  show "queue (allocator (free_result index w)) = enqueue index (queue (allocator w))"
    by (simp add: free_result_def deallocate_def)
  show "results (free_result index w) = results w"
    and "promises (free_result index w) = promises w"
    and "events (free_result index w) = events w"
    and "posted (free_result index w) = posted w"
    by (simp_all add: free_result_def)
  show "free_list (free_result index w) = (if ordered w then free_list w @ [index] else [])"
    using free_list_free_result [of w index] free_list_free_result_lost [of w index] by simp
  show "ordered w \<or> free_list w = []"
    using free_list_free_result_lost [of w index] by blast
qed

theorem free_result_returns_index_only_witness:
  "free_list (free_result (Number 0) (snd (invoke ''add'' [] (WebView_constructor 2)))) =
       [Number 1, Number 0]
   \<and> results (free_result (Number 0) (snd (invoke ''add'' [] (WebView_constructor 2)))) (Number 0) = Some 0
   \<and> \<not> ordered (snd (invoke ''sub'' [] (snd (invoke ''add'' [] (WebView_constructor 1)))))
   \<and> free_list (free_result (Number 0)
        (snd (invoke ''sub'' [] (snd (invoke ''add'' [] (WebView_constructor 1)))))) = []"
proof -
  have o: "ordered (snd (invoke ''add'' [] (WebView_constructor 2)))"
    by (rule first_invoke(3)) simp
  have fl: "free_list (snd (invoke ''add'' [] (WebView_constructor 2))) = [Number 1]"
    using first_invoke(4) [of 2 "''add''" "[]"] by (simp add: upt_conv_Cons)
  have r: "results (snd (invoke ''add'' [] (WebView_constructor 2))) (Number 0) = Some 0"
    by (rule first_invoke(1)) simp
  have no: "\<not> ordered (snd (invoke ''sub'' [] (snd (invoke ''add'' [] (WebView_constructor 1)))))"
    by (simp add: ordered_def invoke_def allocate_def dequeue_def enqueue_def
        WebView_constructor_def IndexAllocator_constructor_def Queue_constructor_def Let_def)
  show ?thesis
    using o fl r no
      free_result_returns_index_only [of "Number 0" "snd (invoke ''add'' [] (WebView_constructor 2))"]
      free_result_returns_index_only [of "Number 0"
        "snd (invoke ''sub'' [] (snd (invoke ''add'' [] (WebView_constructor 1))))"]
    by simp
qed

text \<open>
  The claim as the spec states it fails on the injected object: after one \<^verbatim>\<open>invoke\<close>
  and \<^verbatim>\<open>__free_result(0)\<close>, index 0 is in the free list again while the mapping still
  holds its pair and the promise is still pending.
\<close>

theorem free_result_returns_index_only_counterexample:
  "results (free_result (Number 0) (snd (invoke ''add'' [] webview))) (Number 0) = Some 0
   \<and> promises (free_result (Number 0) (snd (invoke ''add'' [] webview))) = [Pending]
   \<and> last (free_list (free_result (Number 0) (snd (invoke ''add'' [] webview)))) = Number 0"
proof -
  have pos: "0 < MAX_RESULTS" by (simp add: MAX_RESULTS_def)
  have "ordered (snd (invoke ''add'' [] webview))"
    unfolding webview_def by (rule first_invoke(3) [OF pos])
  then have "free_list (free_result (Number 0) (snd (invoke ''add'' [] webview))) =
      free_list (snd (invoke ''add'' [] webview)) @ [Number 0]"
    by (rule free_list_free_result)
  then show ?thesis
    using first_invoke(1,2) [OF pos, of "''add''" "[]"]
    by (simp add: free_result_fields webview_def)
qed

text \<open>
  Claim C4. The free list of a new script object is \<open>0, 1, ..., max_results - 1\<close> in this
  order (for the injected object, \<open>max_results = MAX_RESULTS\<close>). In a run that keeps to
  the protocol no two calls in flight carry the same index on the wire, the script
  object holds under the index of each call in flight the pair of that call's promise,
  the free list is distinct, no index is both in flight and free, and together they are
  the whole domain. \<^verbatim>\<open>invoke\<close> posts the first entry of the free list as the index of the
  new call, which no call in flight carries, and removes it from the free list;
  \<^verbatim>\<open>__free_result\<close> for the index of a call in flight appends the index to the free list,
  where it then occurs exactly once.
\<close>

theorem correlation_indices_unique:
  "free_list (WebView_constructor n) = map Number [0..<n]
   \<and> (keeps_protocol cs (WebView_constructor n, []) \<longrightarrow>
        distinct (map fst (snd (tracks cs (WebView_constructor n, []))))
        \<and> list_all (\<lambda>c. results (fst (tracks cs (WebView_constructor n, []))) (fst c) = Some (snd c))
            (snd (tracks cs (WebView_constructor n, [])))
        \<and> distinct (free_list (fst (tracks cs (WebView_constructor n, []))))
        \<and> set (map fst (snd (tracks cs (WebView_constructor n, []))))
            \<inter> set (free_list (fst (tracks cs (WebView_constructor n, [])))) = {}
        \<and> set (map fst (snd (tracks cs (WebView_constructor n, []))))
            \<union> set (free_list (fst (tracks cs (WebView_constructor n, [])))) = Number ` {0..<n})
   \<and> (keeps_protocol (cs @ [Invoke name args]) (WebView_constructor n, []) \<longrightarrow>
        posted_index (last (posted (fst (tracks (cs @ [Invoke name args]) (WebView_constructor n, []))))) =
          hd (free_list (fst (tracks cs (WebView_constructor n, []))))
        \<and> snd (tracks (cs @ [Invoke name args]) (WebView_constructor n, [])) =
          snd (tracks cs (WebView_constructor n, []))
            @ [(hd (free_list (fst (tracks cs (WebView_constructor n, [])))),
                length (promises (fst (tracks cs (WebView_constructor n, [])))))]
        \<and> hd (free_list (fst (tracks cs (WebView_constructor n, []))))
            \<notin> set (map fst (snd (tracks cs (WebView_constructor n, []))))
        \<and> free_list (fst (tracks (cs @ [Invoke name args]) (WebView_constructor n, []))) =
            tl (free_list (fst (tracks cs (WebView_constructor n, [])))))
   \<and> (keeps_protocol (cs @ [FreeResult index]) (WebView_constructor n, []) \<longrightarrow>
        free_list (fst (tracks (cs @ [FreeResult index]) (WebView_constructor n, []))) =
          free_list (fst (tracks cs (WebView_constructor n, []))) @ [index]
        \<and> count_list (free_list (fst (tracks (cs @ [FreeResult index]) (WebView_constructor n, [])))) index = 1)"
proof (intro conjI impI)
  let ?init = "(WebView_constructor n, [])"
  show "free_list (WebView_constructor n) = map Number [0..<n]"
    by (rule free_list_constructor)
  {
    assume "keeps_protocol cs ?init"
    then have a: "accounted n (tracks cs ?init)"
      by (rule accounted_tracks [OF accounted_initial])
    show "distinct (map fst (snd (tracks cs ?init)))"
      and "list_all (\<lambda>c. results (fst (tracks cs ?init)) (fst c) = Some (snd c)) (snd (tracks cs ?init))"
      and "distinct (free_list (fst (tracks cs ?init)))"
      and "set (map fst (snd (tracks cs ?init))) \<inter> set (free_list (fst (tracks cs ?init))) = {}"
      and "set (map fst (snd (tracks cs ?init))) \<union> set (free_list (fst (tracks cs ?init))) = Number ` {0..<n}"
      using a by (auto simp: accounted_def)
  }
  {
    assume k: "keeps_protocol (cs @ [Invoke name args]) ?init"
    obtain w in_flight where st: "tracks cs ?init = (w, in_flight)"
      by (cases "tracks cs ?init")
    have kc: "keeps_protocol cs ?init" and ne: "free_list w \<noteq> []"
      using k st by (simp_all add: keeps_protocol_append)
    have a: "accounted n (w, in_flight)"
      using accounted_tracks [OF accounted_initial kc] st by simp
    have step: "tracks (cs @ [Invoke name args]) ?init =
        (snd (invoke name args w), in_flight @ [(hd (free_list w), length (promises w))])"
      using st ne by (simp add: tracks_append) (simp add: tracks_def track_invoke allocate_head del: track.simps)
    show "posted_index (last (posted (fst (tracks (cs @ [Invoke name args]) ?init)))) =
          hd (free_list (fst (tracks cs ?init)))"
      using st ne by (simp add: step invoke_posted_index allocate_head)
    show "snd (tracks (cs @ [Invoke name args]) ?init) =
          snd (tracks cs ?init)
            @ [(hd (free_list (fst (tracks cs ?init))), length (promises (fst (tracks cs ?init))))]"
      using st by (simp add: step)
    show "hd (free_list (fst (tracks cs ?init))) \<notin> set (map fst (snd (tracks cs ?init)))"
      using a ne st by (cases "free_list w") (auto simp: accounted_def)
    show "free_list (fst (tracks (cs @ [Invoke name args]) ?init)) =
            tl (free_list (fst (tracks cs ?init)))"
      using st ne by (simp add: step free_list_invoke)
  }
  {
    assume k: "keeps_protocol (cs @ [FreeResult index]) ?init"
    obtain w in_flight where st: "tracks cs ?init = (w, in_flight)"
      by (cases "tracks cs ?init")
    have kc: "keeps_protocol cs ?init" and mem: "index \<in> set (map fst in_flight)"
      using k st by (simp_all add: keeps_protocol_append)
    have a: "accounted n (w, in_flight)"
      using accounted_tracks [OF accounted_initial kc] st by simp
    then have o: "ordered w" by (simp add: accounted_def)
    show fl: "free_list (fst (tracks (cs @ [FreeResult index]) ?init)) =
          free_list (fst (tracks cs ?init)) @ [index]"
      using st by (simp add: tracks_append) (simp add: tracks_def free_list_free_result [OF o])
    have "index \<notin> set (free_list w)"
      using a mem by (auto simp: accounted_def)
    then have "count_list (free_list w @ [index]) index = 1"
      by (simp add: count_list_0_iff)
    then show "count_list (free_list (fst (tracks (cs @ [FreeResult index]) ?init))) index = 1"
      unfolding fl using st by simp
  }
qed

theorem correlation_indices_unique_witness:
  "keeps_protocol [Invoke ''add'' [], Invoke ''sub'' [JInt 1], FreeResult (Number 0), Invoke ''mul'' []]
      (WebView_constructor 3, [])
   \<and> snd (tracks [Invoke ''add'' [], Invoke ''sub'' [JInt 1], FreeResult (Number 0)]
         (WebView_constructor 3, [])) = [(Number 1, 1)]
   \<and> free_list (fst (tracks [Invoke ''add'' [], Invoke ''sub'' [JInt 1], FreeResult (Number 0)]
         (WebView_constructor 3, []))) = [Number 2, Number 0]
   \<and> distinct (map fst (snd (tracks [Invoke ''add'' [], Invoke ''sub'' [JInt 1], FreeResult (Number 0), Invoke ''mul'' []]
         (WebView_constructor 3, []))))
   \<and> snd (tracks [Invoke ''add'' [], Invoke ''sub'' [JInt 1], FreeResult (Number 0), Invoke ''mul'' []]
         (WebView_constructor 3, [])) = [(Number 1, 1), (Number 2, 2)]
   \<and> posted_index (last (posted (fst (tracks
         [Invoke ''add'' [], Invoke ''sub'' [JInt 1], FreeResult (Number 0), Invoke ''mul'' []]
         (WebView_constructor 3, []))))) = Number 2"
proof -
  have k: "keeps_protocol [Invoke ''add'' [], Invoke ''sub'' [JInt 1], FreeResult (Number 0), Invoke ''mul'' []]
      (WebView_constructor 3, [])"
    by (simp add: free_list_def contents_def read_element_def invoke_def free_result_def allocate_def
        deallocate_def dequeue_def enqueue_def WebView_constructor_def IndexAllocator_constructor_def
        Queue_constructor_def posted_index_def Let_def upt_conv_Cons)
  have t3: "snd (tracks [Invoke ''add'' [], Invoke ''sub'' [JInt 1], FreeResult (Number 0)] (WebView_constructor 3, []))
      = [(Number 1, 1)]"
    by (simp add: tracks_def read_element_def invoke_def free_result_def allocate_def
        deallocate_def dequeue_def enqueue_def WebView_constructor_def IndexAllocator_constructor_def
        Queue_constructor_def posted_index_def Let_def upt_conv_Cons)
  have p3: "length (promises (fst (tracks [Invoke ''add'' [], Invoke ''sub'' [JInt 1], FreeResult (Number 0)]
      (WebView_constructor 3, [])))) = 2"
    by (simp add: tracks_def read_element_def invoke_def free_result_def allocate_def
        deallocate_def dequeue_def enqueue_def WebView_constructor_def IndexAllocator_constructor_def
        Queue_constructor_def posted_index_def Let_def upt_conv_Cons)
  have f3: "free_list (fst (tracks [Invoke ''add'' [], Invoke ''sub'' [JInt 1], FreeResult (Number 0)]
         (WebView_constructor 3, []))) = [Number 2, Number 0]"
    by (simp add: tracks_def free_list_def contents_def read_element_def invoke_def free_result_def allocate_def
        deallocate_def dequeue_def enqueue_def WebView_constructor_def IndexAllocator_constructor_def
        Queue_constructor_def posted_index_def Let_def upt_conv_Cons)
  show ?thesis
    using k t3 f3 p3
      correlation_indices_unique [where n = 3
        and cs = "[Invoke ''add'' [], Invoke ''sub'' [JInt 1], FreeResult (Number 0), Invoke ''mul'' []]"]
      correlation_indices_unique [where n = 3
        and cs = "[Invoke ''add'' [], Invoke ''sub'' [JInt 1], FreeResult (Number 0)]"
        and name = "''mul''" and args = "[]"]
    by simp
qed

end
